theory Spec2Isabelle
  imports Complex_Main "HOL-Library.AList" "HOL-Library.Sublist"
begin

section \<open>Settings\<close>

text \<open>
  The module-level constants of \<^verbatim>\<open>Code.gs\<close>. \<^verbatim>\<open>TIME_ZONE\<close> is the fixed offset
  GMT+2; it enters the model as the number of milliseconds added to a timestamp before
  a calendar day or a time of day is read off it.
\<close>

definition CONTRACTS :: "string list" where
  "CONTRACTS =
     [''Al Abtal'', ''Al Alamia'', ''bad El rahman'', ''El Tohami'',
      ''MTA'', ''Stop Car'', ''Tanta Car'', ''Tantawy'',
      ''Team mh for Delivery'', ''Wasaly'', ''Zero Zero Seven'']"

definition CITIES :: "string list" where
  "CITIES = [''Assiut'', ''Hurghada'', ''Ismalia'', ''Minya'', ''Port said'', ''Suez'']"

definition msPerDay :: int where
  "msPerDay = 86400000"

definition TIME_ZONE :: int where
  "TIME_ZONE = 7200000"

section \<open>The platform: cell values, dates and formatting\<close>

text \<open>
  \<^verbatim>\<open>getValues()\<close> delivers each cell as a string (the empty string for a blank cell),
  a number, a boolean or a Date. A number is a rational (every finite double is one;
  a cell never holds NaN or an infinity), a Date is its timestamp in milliseconds since
  the epoch. A text is a list of characters with the code points 0 to 255 (ISO 8859-1).
\<close>

datatype cell = CStr string | CNum rat | CBool bool | CDate int

text \<open>A JavaScript Date object: a timestamp, or the Invalid Date.\<close>

datatype jsdate = Date int | InvalidDate

text \<open>
  The text \<^verbatim>\<open>Utilities.formatDate(d, TIME_ZONE, "yyyy-MM-dd")\<close>. The program only
  compares these texts and uses them as map keys, and the text of a valid date determines
  its GMT+2 calendar day and conversely, so \<open>Day n\<close> stands for the text of day number
  \<open>n\<close> (days since 1970-01-01). \<open>NotADay\<close> stands for a text that is no date's.
\<close>

datatype datekey = Day int | NotADay

datatype error = Error string | PlatformException

text \<open>
  The length of one calendar day of the script time zone: 24 hours, or 23 or 25 hours
  when the clock changes by an hour within it.
\<close>

datatype day_length = Hours23 | Hours24 | Hours25

fun dayMs :: "day_length \<Rightarrow> int" where
  "dayMs Hours23 = 82800000"
| "dayMs Hours24 = 86400000"
| "dayMs Hours25 = 90000000"

text \<open>
  What the program leaves to the Apps Script runtime and the model therefore takes as a
  parameter:
  \<^item> \<open>parseDate\<close>: the Date constructor on a text (implementation-defined outside the
    ISO formats);
  \<^item> \<open>dateToString\<close>: \<^verbatim>\<open>String(d)\<close> for a Date cell;
  \<^item> \<open>numberText\<close>: \<^verbatim>\<open>String(n)\<close> for a number that is not an integer of at most
    \<open>2^53\<close> in absolute value (shortest round-trip digits, exponent notation);
  \<^item> \<open>dayLength\<close>: the script time zone, which is set in the project's manifest and not
    in the program: \<open>dayLength t\<close> is the time from \<open>t\<close> to the same wall-clock time
    of the next calendar day, which is what \<^verbatim>\<open>setDate(getDate() + 1)\<close> adds;
  \<^item> \<open>formatInvalidYMD\<close>, \<open>formatInvalidHHMM\<close>: what \<^verbatim>\<open>Utilities.formatDate\<close> does
    with the Invalid Date under the two patterns, \<open>None\<close> when it throws;
  \<^item> \<open>percentText\<close>: \<^verbatim>\<open>(assigned / total * 100).toFixed(2)\<close>, a computation in binary
    floating point.
\<close>

record platform =
  parseDate :: "string \<Rightarrow> jsdate"
  dateToString :: "int \<Rightarrow> string"
  numberText :: "rat \<Rightarrow> string"
  dayLength :: "int \<Rightarrow> day_length"
  formatInvalidYMD :: "datekey option"
  formatInvalidHHMM :: "string option"
  percentText :: "int \<Rightarrow> int \<Rightarrow> string"

text \<open>JavaScript truthiness of a cell value (\<^verbatim>\<open>if (x)\<close>, \<^verbatim>\<open>!x\<close>, \<^verbatim>\<open>x && y\<close>).\<close>

fun truthy :: "cell \<Rightarrow> bool" where
  "truthy (CStr s) = (s \<noteq> [])"
| "truthy (CNum n) = (n \<noteq> 0)"
| "truthy (CBool b) = b"
| "truthy (CDate t) = True"

definition digitChar :: "nat \<Rightarrow> char" where
  "digitChar d = ''0123456789'' ! d"

function natToString :: "nat \<Rightarrow> string" where
  "natToString n =
     (if n < 10 then [digitChar n] else natToString (n div 10) @ [digitChar (n mod 10)])"
  by pat_completeness auto
termination
  by (relation "measure (\<lambda>n. n)") auto

declare natToString.simps [simp del]

text \<open>
  \<^verbatim>\<open>String(x)\<close> for a cell value. An integer of at most \<open>2^53\<close> in absolute value is a
  double and prints as its decimal digits; every other number prints as the runtime says.
\<close>

fun jsString :: "platform \<Rightarrow> cell \<Rightarrow> string" where
  "jsString P (CStr s) = s"
| "jsString P (CNum n) =
     (if n = of_int \<lfloor>n\<rfloor> \<and> \<bar>\<lfloor>n\<rfloor>\<bar> \<le> 9007199254740992
      then (if n < 0 then CHR ''-'' # natToString (nat (- \<lfloor>n\<rfloor>)) else natToString (nat \<lfloor>n\<rfloor>))
      else numberText P n)"
| "jsString P (CBool b) = (if b then ''true'' else ''false'')"
| "jsString P (CDate t) = dateToString P t"

text \<open>
  \<^verbatim>\<open>s.trim()\<close>: white space and line terminators are removed at both ends. Among
  the code points 0 to 255 these are tab, line feed, vertical tab, form feed, carriage
  return, space and the no-break space U+00A0.
\<close>

definition isSpace :: "char \<Rightarrow> bool" where
  "isSpace c =
     (c \<in> set [CHR 0x09, CHR 0x0A, CHR 0x0B, CHR 0x0C, CHR 0x0D, CHR '' '', CHR 0xA0])"

definition trim :: "string \<Rightarrow> string" where
  "trim s = rev (dropWhile isSpace (rev (dropWhile isSpace s)))"

text \<open>
  The regular expression \<^verbatim>\<open>/(NO_SHOW|EXCUSED)/i\<close>: one of the two words occurs somewhere
  in the text (as a contiguous \<open>sublist\<close>), letters compared without regard to case.
  Without the \<^verbatim>\<open>u\<close> flag only the ASCII letters fold onto the letters of the two
  words.
\<close>

definition toUpper :: "char \<Rightarrow> char" where
  "toUpper c =
     (case map_of (zip ''abcdefghijklmnopqrstuvwxyz'' ''ABCDEFGHIJKLMNOPQRSTUVWXYZ'') c of
        None \<Rightarrow> c | Some u \<Rightarrow> u)"

definition excludedStatus :: "string \<Rightarrow> bool" where
  "excludedStatus s =
     (sublist ''NO_SHOW'' (map toUpper s) \<or> sublist ''EXCUSED'' (map toUpper s))"

text \<open>
  \<^verbatim>\<open>new Date(x)\<close> for a cell value: a number is cut to an integer towards zero, and a
  number beyond the time range gives the Invalid Date.
\<close>

fun newDate :: "platform \<Rightarrow> cell \<Rightarrow> jsdate" where
  "newDate P (CDate t) = Date t"
| "newDate P (CNum n) =
     (if \<bar>n\<bar> \<le> 8640000000000000 then Date (if 0 \<le> n then \<lfloor>n\<rfloor> else - \<lfloor>- n\<rfloor>)
      else InvalidDate)"
| "newDate P (CBool b) = Date (if b then 1 else 0)"
| "newDate P (CStr s) = parseDate P s"

text \<open>\<^verbatim>\<open>a > b\<close> on two Date objects: false as soon as one is the Invalid Date.\<close>

fun jsGreater :: "jsdate \<Rightarrow> jsdate \<Rightarrow> bool" where
  "jsGreater (Date a) (Date b) = (a > b)"
| "jsGreater InvalidDate b = False"
| "jsGreater a InvalidDate = False"

text \<open>\<^verbatim>\<open>Utilities.formatDate(d, TIME_ZONE, "yyyy-MM-dd")\<close>.\<close>

fun formatYMD :: "platform \<Rightarrow> jsdate \<Rightarrow> error + datekey" where
  "formatYMD P (Date t) = Inr (Day ((t + TIME_ZONE) div msPerDay))"
| "formatYMD P InvalidDate =
     (case formatInvalidYMD P of None \<Rightarrow> Inl PlatformException | Some k \<Rightarrow> Inr k)"

definition pad2 :: "nat \<Rightarrow> string" where
  "pad2 n = [digitChar (n div 10), digitChar (n mod 10)]"

text \<open>\<^verbatim>\<open>Utilities.formatDate(d, TIME_ZONE, "HH:mm")\<close>: hour and minute of the GMT+2 wall clock.\<close>

fun formatHHMM :: "platform \<Rightarrow> jsdate \<Rightarrow> error + string" where
  "formatHHMM P (Date t) =
     (let m = nat (((t + TIME_ZONE) div 60000) mod 1440)
      in Inr (pad2 (m div 60) @ '':'' @ pad2 (m mod 60)))"
| "formatHHMM P InvalidDate =
     (case formatInvalidHHMM P of None \<Rightarrow> Inl PlatformException | Some s \<Rightarrow> Inr s)"

section \<open>Data preparation\<close>

text \<open>
  A row of a city sheet, as \<^verbatim>\<open>getRange(2, 1, lastRow - 1, 16).getValues()\<close> delivers it:
  always sixteen cells, of which the program reads the five at the indices 1, 5, 7, 9
  and 10.
\<close>

record raw_row =
  col1 :: cell
  col5 :: cell
  col7 :: cell
  col9 :: cell
  col10 :: cell

text \<open>The object that \<^verbatim>\<open>prepareRawData\<close> pushes: these six fields and no other.\<close>

record shift_record =
  employeeId :: string
  shiftStatus :: string
  plannedStartDate :: cell
  plannedStartTime :: string
  plannedEndTime :: string
  city :: string

text \<open>A row of the sheet \<^verbatim>\<open>All\<close> (four cells) and the object \<^verbatim>\<open>getMasterData\<close> makes of it.\<close>

record master_row =
  mcol0 :: cell
  mcol1 :: cell
  mcol2 :: cell
  mcol3 :: cell

record employee =
  emp_id :: string
  emp_name :: string
  emp_contract :: string
  emp_city :: string

record daily_data =
  assigned :: "shift_record list"
  unassigned :: "employee list"

text \<open>One date's three cells of a report row, and a row of \<^verbatim>\<open>Master_Report\<close>.\<close>

record summary_cell =
  sc_assigned :: int
  sc_unassigned :: int
  sc_percentage :: string

record report_row =
  rr_contract :: string
  rr_city :: string
  rr_total :: int
  rr_cells :: "summary_cell list"

text \<open>
  The spreadsheet: the city sheets and the sheet \<^verbatim>\<open>All\<close> hold the data rows (from row 2
  on; \<open>None\<close> when the sheet does not exist, the empty list when its last row is below
  2); the generated sheets are the pairs \<^verbatim>\<open>Shifts_<date>\<close>, \<^verbatim>\<open>Unassigned_<date>\<close> with
  their data rows, and the data rows of \<^verbatim>\<open>Master_Report\<close>.
\<close>

record spreadsheet =
  citySheets :: "string \<Rightarrow> raw_row list option"
  allSheet :: "master_row list option"
  dailySheets ::
    "(int \<times> (string \<times> string \<times> string \<times> string \<times> string) list
          \<times> (string \<times> string \<times> string \<times> string) list) list"
  masterReport :: "report_row list option"

definition isValidShift :: "platform \<Rightarrow> cell \<Rightarrow> bool" where
  "isValidShift P status =
     (if \<not> truthy status then False else \<not> excludedStatus (trim (jsString P status)))"

definition formatTime :: "platform \<Rightarrow> cell \<Rightarrow> string" where
  "formatTime P time =
     (if \<not> truthy time then ''Invalid Time''
      else case formatHHMM P (newDate P time) of
             Inr s \<Rightarrow> s
           | Inl e \<Rightarrow> ''Invalid Time'')"

definition prepareRawData :: "platform \<Rightarrow> spreadsheet \<Rightarrow> shift_record list" where
  "prepareRawData P ss =
     concat (map (\<lambda>c.
       case citySheets ss c of
         None \<Rightarrow> []
       | Some data \<Rightarrow>
           map (\<lambda>row. \<lparr> employeeId = trim (jsString P (col1 row)),
                        shiftStatus = trim (jsString P (col5 row)),
                        plannedStartDate = col7 row,
                        plannedStartTime = formatTime P (col9 row),
                        plannedEndTime = formatTime P (col10 row),
                        city = c \<rparr>)
               (filter (\<lambda>row. truthy (col1 row) \<and> isValidShift P (col5 row)) data))
       CITIES)"

section \<open>Daily processing\<close>

text \<open>
  \<^verbatim>\<open>Array.prototype.filter\<close> with a callback that may throw: the first exception ends
  the traversal.
\<close>

fun filterE :: "('a \<Rightarrow> error + bool) \<Rightarrow> 'a list \<Rightarrow> error + 'a list" where
  "filterE p [] = Inr []"
| "filterE p (x # xs) =
     (case p x of
        Inl e \<Rightarrow> Inl e
      | Inr b \<Rightarrow>
          (case filterE p xs of
             Inl e \<Rightarrow> Inl e
           | Inr ys \<Rightarrow> Inr (if b then x # ys else ys)))"

text \<open>
  The callback of both date filters (in \<^verbatim>\<open>processDailyData\<close> and in
  \<^verbatim>\<open>generateMasterReport\<close>): the row's planned start date, made a Date and formatted,
  equals the target date's text.
\<close>

definition sameDay :: "platform \<Rightarrow> datekey \<Rightarrow> shift_record \<Rightarrow> error + bool" where
  "sameDay P targetDateStr row =
     (case formatYMD P (newDate P (plannedStartDate row)) of
        Inl e \<Rightarrow> Inl e
      | Inr rowDateStr \<Rightarrow> Inr (rowDateStr = targetDateStr))"

text \<open>
  The target dates are the valid dates that \<^verbatim>\<open>getDateRange\<close> pushes, so a target date
  is a timestamp. \<open>assignedIds\<close> is the local \<^verbatim>\<open>Set\<close> of the function.
\<close>

definition assignedIds :: "shift_record list \<Rightarrow> string set" where
  "assignedIds assignedRows = set (map employeeId assignedRows)"

definition processDailyData ::
  "platform \<Rightarrow> shift_record list \<Rightarrow> int \<Rightarrow> employee list \<Rightarrow> error + daily_data" where
  "processDailyData P rawData targetDate masterData =
     (case formatYMD P (Date targetDate) of
        Inl e \<Rightarrow> Inl e
      | Inr targetDateStr \<Rightarrow>
          (case filterE (sameDay P targetDateStr) rawData of
             Inl e \<Rightarrow> Inl e
           | Inr assignedRows \<Rightarrow>
               Inr \<lparr> assigned = assignedRows,
                     unassigned =
                       filter (\<lambda>emp. emp_id emp \<notin> assignedIds assignedRows) masterData \<rparr>))"

text \<open>
  \<^verbatim>\<open>createDailySheets\<close> inserts the two sheets of a date and writes their data rows.
  The sheet names carry the date; the dates of a range are distinct days and the sheets
  of an earlier run have been deleted, so the names are fresh.
\<close>

definition createDailySheets :: "spreadsheet \<Rightarrow> int \<Rightarrow> daily_data \<Rightarrow> spreadsheet" where
  "createDailySheets ss date dailyData =
     ss \<lparr> dailySheets := dailySheets ss @
            [(date,
              map (\<lambda>row. (employeeId row, plannedStartTime row, plannedEndTime row,
                           city row, ''Assigned''))
                  (assigned dailyData),
              map (\<lambda>emp. (emp_id emp, emp_name emp, emp_contract emp, emp_city emp))
                  (unassigned dailyData))] \<rparr>"

section \<open>Master report\<close>

text \<open>
  \<^verbatim>\<open>contractMap\<close> is a JavaScript \<^verbatim>\<open>Map\<close>: it iterates in insertion order, and
  \<^verbatim>\<open>set\<close> on a present key replaces the value where it stands. That is an association
  list under \<open>AList.update\<close>. The value's \<^verbatim>\<open>dates\<close> is a map from date text to
  \<^verbatim>\<open>{ assigned: n }\<close>.
\<close>

record contract_entry =
  ce_contract :: string
  ce_city :: string
  ce_total :: int
  ce_dates :: "(datekey \<times> int) list"

type_synonym contract_map = "(string \<times> contract_entry) list"

text \<open>Initialize contract map with all contracts and cities.\<close>

definition initContractMap :: contract_map where
  "initContractMap =
     fold (\<lambda>contract. fold (\<lambda>c.
             AList.update (contract @ ''_'' @ c)
               \<lparr> ce_contract = contract, ce_city = c, ce_total = 0, ce_dates = [] \<rparr>)
           CITIES)
       CONTRACTS []"

text \<open>Count total employees per contract and city.\<close>

definition countTotals :: "employee list \<Rightarrow> contract_map \<Rightarrow> contract_map" where
  "countTotals masterData =
     fold (\<lambda>emp contractMap.
             let key = emp_contract emp @ ''_'' @ emp_city emp
             in case map_of contractMap key of
                  None \<Rightarrow> contractMap
                | Some v \<Rightarrow> AList.update key (v \<lparr> ce_total := ce_total v + 1 \<rparr>) contractMap)
       masterData"

text \<open>
  Count assignments per contract and city, for the rows of one date. A shift record has
  no field \<^verbatim>\<open>contract\<close>, so \<^verbatim>\<open>row.contract\<close> is \<^verbatim>\<open>undefined\<close> and the template
  \<^verbatim>\<open>`${row.contract}_${row.city}`\<close> begins with the text \<^verbatim>\<open>undefined\<close>.
\<close>

definition countAssignments :: "datekey \<Rightarrow> shift_record list \<Rightarrow> contract_map \<Rightarrow> contract_map" where
  "countAssignments dateStr dateData =
     fold (\<lambda>row contractMap.
             let key = ''undefined'' @ ''_'' @ city row
             in case map_of contractMap key of
                  None \<Rightarrow> contractMap
                | Some data \<Rightarrow>
                    let ds = (if dateStr \<in> fst ` set (ce_dates data) then ce_dates data
                              else AList.update dateStr 0 (ce_dates data));
                        n = (case map_of ds dateStr of None \<Rightarrow> 0 | Some a \<Rightarrow> a)
                    in AList.update key
                         (data \<lparr> ce_dates := AList.update dateStr (n + 1) ds \<rparr>) contractMap)
       dateData"

text \<open>Count assigned employees for each date.\<close>

fun countAssigned ::
  "platform \<Rightarrow> int list \<Rightarrow> shift_record list \<Rightarrow> contract_map \<Rightarrow> error + contract_map" where
  "countAssigned P [] rawData contractMap = Inr contractMap"
| "countAssigned P (date # dates) rawData contractMap =
     (case formatYMD P (Date date) of
        Inl e \<Rightarrow> Inl e
      | Inr dateStr \<Rightarrow>
          (case filterE (sameDay P dateStr) rawData of
             Inl e \<Rightarrow> Inl e
           | Inr dateData \<Rightarrow>
               countAssigned P dates rawData (countAssignments dateStr dateData contractMap)))"

text \<open>
  Populate data: one row for each entry with employees, in the map's order. The source
  row is the flat array \<^verbatim>\<open>[contract, city, total, a1, u1, p1, a2, u2, p2, ...]\<close>; the model
  keeps the three leading values as fields and the date triples as a list.
\<close>

definition dateCell :: "platform \<Rightarrow> contract_entry \<Rightarrow> datekey \<Rightarrow> summary_cell" where
  "dateCell P v dateStr =
     (let a = (case map_of (ce_dates v) dateStr of None \<Rightarrow> 0 | Some a \<Rightarrow> a);
          u = ce_total v - a;
          percentage = (if ce_total v > 0 then percentText P a (ce_total v) @ ''%'' else ''0%'')
      in \<lparr> sc_assigned = a, sc_unassigned = u, sc_percentage = percentage \<rparr>)"

fun populateCells :: "platform \<Rightarrow> contract_entry \<Rightarrow> int list \<Rightarrow> error + summary_cell list" where
  "populateCells P v [] = Inr []"
| "populateCells P v (date # dates) =
     (case formatYMD P (Date date) of
        Inl e \<Rightarrow> Inl e
      | Inr dateStr \<Rightarrow>
          (case populateCells P v dates of
             Inl e \<Rightarrow> Inl e
           | Inr cells \<Rightarrow> Inr (dateCell P v dateStr # cells)))"

fun populateRows :: "platform \<Rightarrow> int list \<Rightarrow> contract_map \<Rightarrow> error + report_row list" where
  "populateRows P dates [] = Inr []"
| "populateRows P dates ((key, v) # contractMap) =
     (if ce_total v > 0 then
        (case populateCells P v dates of
           Inl e \<Rightarrow> Inl e
         | Inr cells \<Rightarrow>
             (case populateRows P dates contractMap of
                Inl e \<Rightarrow> Inl e
              | Inr rows \<Rightarrow>
                  Inr (\<lparr> rr_contract = ce_contract v, rr_city = ce_city v,
                          rr_total = ce_total v, rr_cells = cells \<rparr> # rows)))
      else populateRows P dates contractMap)"

definition generateMasterReport ::
  "platform \<Rightarrow> int list \<Rightarrow> employee list \<Rightarrow> shift_record list \<Rightarrow> error + report_row list" where
  "generateMasterReport P dates masterData rawData =
     (case countAssigned P dates rawData (countTotals masterData initContractMap) of
        Inl e \<Rightarrow> Inl e
      | Inr contractMap \<Rightarrow> populateRows P dates contractMap)"

section \<open>Utilities\<close>

text \<open>
  \<^verbatim>\<open>getDateRange\<close>: the loop pushes a copy of \<^verbatim>\<open>current\<close> and moves it on by one
  calendar day of the script time zone (\<^verbatim>\<open>setDate(getDate() + 1)\<close>). The loop condition
  compares the timestamps. A comparison with the Invalid Date is false, so the loop body
  never runs for one.
\<close>

function getDateRangeLoop :: "platform \<Rightarrow> int \<Rightarrow> int \<Rightarrow> int list \<Rightarrow> int list" where
  "getDateRangeLoop P current endT dates =
     (if current \<le> endT
      then getDateRangeLoop P (current + dayMs (dayLength P current)) endT (dates @ [current])
      else dates)"
  by pat_completeness auto
termination
proof (relation "measure (\<lambda>(P, current, endT, dates). nat (endT - current + 1))")
  show "wf (measure (\<lambda>(P, current, endT, dates). nat (endT - current + 1)))"
    by simp
next
  fix P :: platform and current endT :: int and dates :: "int list"
  assume "current \<le> endT"
  moreover have "0 < dayMs (dayLength P current)"
    by (cases "dayLength P current") simp_all
  ultimately
  show "((P, current + dayMs (dayLength P current), endT, dates @ [current]),
         P, current, endT, dates)
       \<in> measure (\<lambda>(P, current, endT, dates). nat (endT - current + 1))"
    by simp
qed

declare getDateRangeLoop.simps [simp del]

fun getDateRange :: "platform \<Rightarrow> jsdate \<Rightarrow> jsdate \<Rightarrow> int list" where
  "getDateRange P (Date s) (Date e) = getDateRangeLoop P s e []"
| "getDateRange P InvalidDate e = []"
| "getDateRange P s InvalidDate = []"

definition getMasterData :: "platform \<Rightarrow> spreadsheet \<Rightarrow> employee list" where
  "getMasterData P ss =
     (case allSheet ss of
        None \<Rightarrow> []
      | Some rows \<Rightarrow>
          map (\<lambda>row. \<lparr> emp_id = trim (jsString P (mcol0 row)),
                       emp_name = jsString P (mcol1 row),
                       emp_contract = jsString P (mcol2 row),
                       emp_city = jsString P (mcol3 row) \<rparr>) rows)"

section \<open>Notifications\<close>

text \<open>
  The alert a run ends with. The success alert reports the number of days and the first
  and last date of the range; with no date at all \<^verbatim>\<open>dates[0]\<close> is \<^verbatim>\<open>undefined\<close>,
  which \<^verbatim>\<open>Utilities.formatDate\<close> rejects. The error alert shows the message of the
  exception; the message of an exception of the runtime is not modelled.
\<close>

datatype notification =
    ReportGenerated nat datekey datekey
  | ErrorAlert string
  | PlatformErrorAlert

definition showSuccessNotification :: "platform \<Rightarrow> int list \<Rightarrow> error + notification" where
  "showSuccessNotification P dates =
     (if dates = [] then Inl PlatformException
      else case formatYMD P (Date (hd dates)) of
             Inl e \<Rightarrow> Inl e
           | Inr startStr \<Rightarrow>
               (case formatYMD P (Date (last dates)) of
                  Inl e \<Rightarrow> Inl e
                | Inr endStr \<Rightarrow> Inr (ReportGenerated (length dates) startStr endStr)))"

fun handleError :: "error \<Rightarrow> notification" where
  "handleError (Error message) = ErrorAlert (if message = [] then ''Unknown error'' else message)"
| "handleError PlatformException = PlatformErrorAlert"

section \<open>Core processing\<close>

text \<open>
  \<^verbatim>\<open>clearExistingSheets\<close> deletes the generated sheets of an earlier run and keeps the
  city sheets and \<^verbatim>\<open>All\<close>.
\<close>

definition clearExistingSheets :: "spreadsheet \<Rightarrow> spreadsheet" where
  "clearExistingSheets ss = ss \<lparr> dailySheets := [], masterReport := None \<rparr>"

text \<open>Generate daily reports: the \<^verbatim>\<open>forEach\<close> over the dates, left at the first exception.\<close>

fun dailyReports ::
  "platform \<Rightarrow> shift_record list \<Rightarrow> employee list \<Rightarrow> int list \<Rightarrow> spreadsheet
     \<Rightarrow> spreadsheet \<times> error option" where
  "dailyReports P rawData masterData [] ss = (ss, None)"
| "dailyReports P rawData masterData (date # dates) ss =
     (case processDailyData P rawData date masterData of
        Inl e \<Rightarrow> (ss, Some e)
      | Inr dailyData \<Rightarrow>
          dailyReports P rawData masterData dates (createDailySheets ss date dailyData))"

text \<open>
  The body of the \<^verbatim>\<open>try\<close> block of \<^verbatim>\<open>processSelectedDates\<close>: the spreadsheet as the
  block leaves it, with the exception that ended it (\<open>Inl\<close>) or the alert of a completed
  run. \<^verbatim>\<open>generateMasterReport\<close> clears \<^verbatim>\<open>Master_Report\<close> and writes the header before it
  counts, so when it is left by an exception the sheet exists without data rows.
\<close>

definition processSelectedDatesTry ::
  "platform \<Rightarrow> spreadsheet \<Rightarrow> string \<Rightarrow> string \<Rightarrow> spreadsheet \<times> (error + notification)" where
  "processSelectedDatesTry P ss startDate endDate =
     (let start = parseDate P startDate; endD = parseDate P endDate
      in if jsGreater start endD
         then (ss, Inl (Error ''Start date must be before end date''))
         else
           let ss1 = clearExistingSheets ss;
               rawData = prepareRawData P ss1
           in if length rawData = 0
              then (ss1, Inl (Error ''No valid shift data found in city sheets''))
              else
                let dates = getDateRange P start endD;
                    masterData = getMasterData P ss1
                in if length masterData = 0
                   then (ss1, Inl (Error ''No employee data found in 'All' sheet''))
                   else
                     (case dailyReports P rawData masterData dates ss1 of
                        (ss2, Some e) \<Rightarrow> (ss2, Inl e)
                      | (ss2, None) \<Rightarrow>
                          (case generateMasterReport P dates masterData rawData of
                             Inl e \<Rightarrow> (ss2 \<lparr> masterReport := Some [] \<rparr>, Inl e)
                           | Inr rows \<Rightarrow>
                               (ss2 \<lparr> masterReport := Some rows \<rparr>,
                                showSuccessNotification P dates))))"

text \<open>
  \<^verbatim>\<open>processSelectedDates\<close>: the \<^verbatim>\<open>try\<close> block and its \<^verbatim>\<open>catch\<close>, which hands every
  exception to \<^verbatim>\<open>handleError\<close>. The result is the spreadsheet and what the caller
  receives: \<open>Inl\<close> an exception that leaves the function, \<open>Inr\<close> the alert shown by a
  call that returns.
\<close>

definition processSelectedDates ::
  "platform \<Rightarrow> spreadsheet \<Rightarrow> string \<Rightarrow> string \<Rightarrow> spreadsheet \<times> (error + notification)" where
  "processSelectedDates P ss startDate endDate =
     (case processSelectedDatesTry P ss startDate endDate of
        (ss', Inl e) \<Rightarrow> (ss', Inr (handleError e))
      | (ss', Inr shown) \<Rightarrow> (ss', Inr shown))"

section \<open>Vocabulary of the statements\<close>


definition dayOf :: "int \<Rightarrow> datekey" where
  "dayOf t = Day ((t + TIME_ZONE) div msPerDay)"

definition rowDay :: "platform \<Rightarrow> shift_record \<Rightarrow> error + datekey" where
  "rowDay P row = formatYMD P (newDate P (plannedStartDate row))"

definition datesReadable :: "platform \<Rightarrow> shift_record list \<Rightarrow> bool" where
  "datesReadable P rawData = (\<forall>row\<in>set rawData. rowDay P row \<noteq> Inl PlatformException)"


text \<open>
  The key of a (contract, city) pair, the entry \<^verbatim>\<open>contractMap\<close> starts with, the
  number of roster entries under a key and the number of roster entries with a given
  contract and city.
\<close>

definition keyOf :: "string \<times> string \<Rightarrow> string" where
  "keyOf p = fst p @ ''_'' @ snd p"

definition emptyEntry :: "string \<times> string \<Rightarrow> contract_entry" where
  "emptyEntry p = \<lparr> ce_contract = fst p, ce_city = snd p, ce_total = 0, ce_dates = [] \<rparr>"

definition rosterCount :: "employee list \<Rightarrow> string \<Rightarrow> int" where
  "rosterCount masterData k =
     int (length (filter (\<lambda>emp. emp_contract emp @ ''_'' @ emp_city emp = k) masterData))"

definition rosterMatch :: "employee list \<Rightarrow> string \<Rightarrow> string \<Rightarrow> int" where
  "rosterMatch masterData contract c =
     int (length (filter (\<lambda>emp. emp_contract emp = contract \<and> emp_city emp = c) masterData))"

text \<open>The rows \<^verbatim>\<open>generateMasterReport\<close> writes, in closed form.\<close>

definition reportRows :: "platform \<Rightarrow> int list \<Rightarrow> employee list \<Rightarrow> report_row list" where
  "reportRows P dates masterData =
     map (\<lambda>p. \<lparr> rr_contract = fst p, rr_city = snd p,
                 rr_total = rosterMatch masterData (fst p) (snd p),
                 rr_cells =
                   map (\<lambda>d. \<lparr> sc_assigned = 0,
                               sc_unassigned = rosterMatch masterData (fst p) (snd p),
                               sc_percentage =
                                 percentText P 0 (rosterMatch masterData (fst p) (snd p)) @ ''%'' \<rparr>)
                     dates \<rparr>)
       (filter (\<lambda>p. rosterMatch masterData (fst p) (snd p) > 0) (List.product CONTRACTS CITIES))"






section \<open>Sample inputs\<close>

text \<open>
  A sample platform: it parses the two ISO dates used below (to midnight UTC), rejects
  the Invalid Date, renders a percentage by exact rounding, and its script time zone has
  no clock change. \<open>PCairo\<close> differs in the script time zone: the calendar day in which
  summer time ended in Egypt in 2024 (at 21:00 UTC on 31 October) has 25 hours.
  Two roster entries of contract MTA in Suez, shifts on 2024-01-05 (two for E1, one for
  X9, who is not on the roster), an empty spreadsheet, a spreadsheet with one shift row
  and no sheet \<^verbatim>\<open>All\<close>, the same with E1 on the sheet \<^verbatim>\<open>All\<close>, one whose Suez sheet
  mixes valid rows with a no-show, a row without id and an excused row, and one whose
  Assiut sheet has one row with a blank status.
\<close>

definition samplePercent :: "int \<Rightarrow> int \<Rightarrow> string" where
  "samplePercent a t =
     (let h = nat ((a * 10000 + t div 2) div t)
      in natToString (h div 100) @ ''.'' @ pad2 (h mod 100))"

definition P0 :: platform where
  "P0 = \<lparr> parseDate = (\<lambda>s. if s = ''2024-01-05'' then Date 1704412800000
                          else if s = ''2024-01-06'' then Date 1704499200000
                          else InvalidDate),
          dateToString = (\<lambda>t. ''[Date]''),
          numberText = (\<lambda>n. ''[Number]''),
          dayLength = (\<lambda>t. Hours24),
          formatInvalidYMD = None,
          formatInvalidHHMM = None,
          percentText = samplePercent \<rparr>"


definition day0 :: int where
  "day0 = 1704412800000"

definition empE1 :: employee where
  "empE1 = \<lparr> emp_id = ''E1'', emp_name = ''Amal'', emp_contract = ''MTA'', emp_city = ''Suez'' \<rparr>"

definition empE2 :: employee where
  "empE2 = \<lparr> emp_id = ''E2'', emp_name = ''Basem'', emp_contract = ''MTA'', emp_city = ''Suez'' \<rparr>"

definition shiftE1 :: shift_record where
  "shiftE1 = \<lparr> employeeId = ''E1'', shiftStatus = ''Completed'',
               plannedStartDate = CDate 1704412800000,
               plannedStartTime = ''09:00'', plannedEndTime = ''17:00'', city = ''Suez'' \<rparr>"

definition shiftE1b :: shift_record where
  "shiftE1b = \<lparr> employeeId = ''E1'', shiftStatus = ''Completed'',
                plannedStartDate = CDate 1704412800000,
                plannedStartTime = ''18:00'', plannedEndTime = ''22:00'', city = ''Suez'' \<rparr>"

definition shiftX9 :: shift_record where
  "shiftX9 = \<lparr> employeeId = ''X9'', shiftStatus = ''Completed'',
               plannedStartDate = CDate 1704412800000,
               plannedStartTime = ''09:00'', plannedEndTime = ''17:00'', city = ''Minya'' \<rparr>"

definition ssEmpty :: spreadsheet where
  "ssEmpty = \<lparr> citySheets = (\<lambda>c. None), allSheet = None, dailySheets = [], masterReport = None \<rparr>"

definition ssNoRoster :: spreadsheet where
  "ssNoRoster =
     \<lparr> citySheets = (\<lambda>c. if c = ''Suez''
                          then Some [\<lparr> col1 = CStr ''E1'', col5 = CStr ''Completed'',
                                       col7 = CDate 1704412800000,
                                       col9 = CDate 1704438000000,
                                       col10 = CDate 1704466800000 \<rparr>]
                          else None),
       allSheet = None, dailySheets = [], masterReport = None \<rparr>"

definition ssSample :: spreadsheet where
  "ssSample =
     \<lparr> citySheets = (\<lambda>c. if c = ''Suez''
                          then Some [\<lparr> col1 = CStr ''E1'', col5 = CStr ''Completed'',
                                       col7 = CDate 1704412800000,
                                       col9 = CDate 1704438000000,
                                       col10 = CDate 1704466800000 \<rparr>]
                          else None),
       allSheet = Some [\<lparr> mcol0 = CStr ''E1'', mcol1 = CStr ''Amal'', mcol2 = CStr ''MTA'',
                          mcol3 = CStr ''Suez'' \<rparr>],
       dailySheets = [], masterReport = None \<rparr>"




section \<open>Filtering with a callback that may throw\<close>

lemma filterE_Inr:
  "filterE p xs = Inr ys \<Longrightarrow> ys = filter (\<lambda>x. p x = Inr True) xs"
  by (induction xs arbitrary: ys) (auto split: sum.splits if_splits)

lemma filterE_Inr_defined:
  "filterE p xs = Inr ys \<Longrightarrow> x \<in> set xs \<Longrightarrow> \<exists>b. p x = Inr b"
  by (induction xs arbitrary: ys) (auto split: sum.splits if_splits)

lemma filterE_total:
  "\<forall>x\<in>set xs. \<exists>b. p x = Inr b \<Longrightarrow> \<exists>ys. filterE p xs = Inr ys"
proof (induction xs)
  case Nil
  then show ?case by simp
next
  case (Cons x xs)
  then obtain b ys where "p x = Inr b" "filterE p xs = Inr ys"
    by auto
  then show ?case by simp
qed

lemma filterE_Inl:
  "filterE p xs = Inl e \<Longrightarrow> \<exists>x\<in>set xs. p x = Inl e"
  by (induction xs) (auto split: sum.splits)

section \<open>Keys of the contract map\<close>

lemma underscore_split:
  assumes "a @ CHR ''_'' # b = c @ CHR ''_'' # d" "CHR ''_'' \<notin> set a" "CHR ''_'' \<notin> set c"
  shows "a = c \<and> b = d"
proof -
  have stop: "takeWhile (\<lambda>x. x \<noteq> CHR ''_'') (xs @ CHR ''_'' # ys) = xs"
    if "CHR ''_'' \<notin> set xs" for xs ys :: string
    using that by (induction xs) auto
  have "takeWhile (\<lambda>x. x \<noteq> CHR ''_'') (a @ CHR ''_'' # b) = a"
    using assms(2) by (rule stop)
  moreover have "takeWhile (\<lambda>x. x \<noteq> CHR ''_'') (c @ CHR ''_'' # d) = c"
    using assms(3) by (rule stop)
  ultimately have "a = c" using assms(1) by simp
  with assms(1) show ?thesis by simp
qed

lemma underscore_unique:
  assumes eq: "a @ CHR ''_'' # b = c @ CHR ''_'' # d"
    and c: "CHR ''_'' \<notin> set c" and d: "CHR ''_'' \<notin> set d"
  shows "a = c \<and> b = d"
proof -
  have "count_list (a @ CHR ''_'' # b) (CHR ''_'') = count_list (c @ CHR ''_'' # d) (CHR ''_'')"
    using eq by simp
  with c d have "count_list a (CHR ''_'') = 0"
    by (simp add: count_list_0_iff [THEN iffD2])
  then have "CHR ''_'' \<notin> set a" by (simp add: count_list_0_iff)
  from underscore_split [OF eq this c] show ?thesis .
qed

lemma CONTRACTS_no_underscore: "c \<in> set CONTRACTS \<Longrightarrow> CHR ''_'' \<notin> set c"
  by (auto simp: CONTRACTS_def)

lemma CITIES_no_underscore: "c \<in> set CITIES \<Longrightarrow> CHR ''_'' \<notin> set c"
  by (auto simp: CITIES_def)

lemma undefined_not_contract: "''undefined'' \<notin> set CONTRACTS"
  by (simp add: CONTRACTS_def)

lemma distinct_CONTRACTS: "distinct CONTRACTS"
  by (simp add: CONTRACTS_def)

lemma distinct_CITIES: "distinct CITIES"
  by (simp add: CITIES_def)

lemma keyOf_inj:
  "keyOf p = keyOf q \<Longrightarrow> CHR ''_'' \<notin> set (fst p) \<Longrightarrow> CHR ''_'' \<notin> set (fst q) \<Longrightarrow> p = q"
  using underscore_split [of "fst p" "snd p" "fst q" "snd q"]
  by (simp add: keyOf_def prod_eq_iff)

lemma distinct_keys: "distinct (map keyOf (List.product CONTRACTS CITIES))"
proof -
  have "inj_on keyOf (set (List.product CONTRACTS CITIES))"
  proof (rule inj_onI)
    fix p q
    assume "p \<in> set (List.product CONTRACTS CITIES)" "q \<in> set (List.product CONTRACTS CITIES)"
    then have "CHR ''_'' \<notin> set (fst p)" "CHR ''_'' \<notin> set (fst q)"
      by (auto dest: CONTRACTS_no_underscore)
    moreover assume "keyOf p = keyOf q"
    ultimately show "p = q" by (rule keyOf_inj [rotated])
  qed
  moreover have "distinct (List.product CONTRACTS CITIES)"
    by (simp add: distinct_product distinct_CONTRACTS distinct_CITIES)
  ultimately show ?thesis by (simp add: distinct_map)
qed

section \<open>The contract map after initialisation and counting\<close>

lemma update_fresh: "k \<notin> fst ` set al \<Longrightarrow> AList.update k v al = al @ [(k, v)]"
  by (induction al) auto

lemma fold_update_fresh:
  "distinct (map f xs) \<Longrightarrow> f ` set xs \<inter> fst ` set m = {} \<Longrightarrow>
   fold (\<lambda>x. AList.update (f x) (g x)) xs m = m @ map (\<lambda>x. (f x, g x)) xs"
proof (induction xs arbitrary: m)
  case Nil
  then show ?case by simp
next
  case (Cons x xs)
  have fresh: "f x \<notin> fst ` set m" using Cons.prems(2) by auto
  have "f ` set xs \<inter> fst ` set (m @ [(f x, g x)]) = {}"
    using Cons.prems by auto
  with Cons.IH [of "m @ [(f x, g x)]"] Cons.prems(1)
  have "fold (\<lambda>x. AList.update (f x) (g x)) xs (m @ [(f x, g x)]) =
        (m @ [(f x, g x)]) @ map (\<lambda>x. (f x, g x)) xs"
    by simp
  then show ?case by (simp add: update_fresh [OF fresh])
qed

lemma fold_fold_product:
  "fold (\<lambda>a. fold (h a) ys) xs m = fold (\<lambda>p. h (fst p) (snd p)) (List.product xs ys) m"
  by (induction xs arbitrary: m) (simp_all add: fold_map comp_def)

lemma initContractMap_eq:
  "initContractMap = map (\<lambda>p. (keyOf p, emptyEntry p)) (List.product CONTRACTS CITIES)"
proof -
  have "initContractMap =
        fold (\<lambda>p. AList.update (keyOf p) (emptyEntry p)) (List.product CONTRACTS CITIES) []"
    unfolding initContractMap_def keyOf_def emptyEntry_def
    by (rule fold_fold_product)
  also have "\<dots> = [] @ map (\<lambda>p. (keyOf p, emptyEntry p)) (List.product CONTRACTS CITIES)"
    by (rule fold_update_fresh) (simp_all add: distinct_keys)
  finally show ?thesis by simp
qed

lemma bump_entry:
  "distinct (map fst m) \<Longrightarrow>
   (case map_of m k of None \<Rightarrow> m | Some v \<Rightarrow> AList.update k (f v) m) =
   map (\<lambda>(k', v). (k', if k' = k then f v else v)) m"
proof (induction m)
  case Nil
  then show ?case by simp
next
  case (Cons p m)
  obtain k' v' where p: "p = (k', v')" by (cases p)
  show ?case
  proof (cases "k' = k")
    case True
    then have "k \<notin> fst ` set m" using Cons.prems p by auto
    then have "map (\<lambda>(k', v). (k', if k' = k then f v else v)) m = m"
      by (induction m) auto
    with True p show ?thesis by simp
  next
    case False
    from Cons.prems have "distinct (map fst m)" by simp
    from Cons.IH [OF this] False p show ?thesis
      by (cases "map_of m k") simp_all
  qed
qed

lemma keys_map_values: "map fst (map (\<lambda>(k, v). (k, g k v)) m) = map fst m"
  by (induction m) auto

lemma countTotals_eq:
  "distinct (map fst m) \<Longrightarrow>
   countTotals masterData m =
   map (\<lambda>(k, v). (k, v \<lparr> ce_total := ce_total v + rosterCount masterData k \<rparr>)) m"
proof (induction masterData arbitrary: m)
  case Nil
  then show ?case by (simp add: countTotals_def rosterCount_def)
next
  case (Cons emp masterData)
  let ?key = "emp_contract emp @ ''_'' @ emp_city emp"
  let ?m' = "map (\<lambda>(k', v). (k', if k' = ?key then v \<lparr> ce_total := ce_total v + 1 \<rparr> else v)) m"
  have "countTotals (emp # masterData) m =
        countTotals masterData
          (case map_of m ?key of None \<Rightarrow> m
           | Some v \<Rightarrow> AList.update ?key (v \<lparr> ce_total := ce_total v + 1 \<rparr>) m)"
    unfolding countTotals_def Let_def by simp
  also have "\<dots> = countTotals masterData ?m'"
    by (simp only: bump_entry [OF Cons.prems])
  finally have step: "countTotals (emp # masterData) m = countTotals masterData ?m'" .
  have "distinct (map fst ?m')"
    using Cons.prems by (simp only: keys_map_values)
  from Cons.IH [OF this] step show ?case
    by (auto simp: rosterCount_def)
qed

lemma rosterCount_match:
  assumes "p \<in> set (List.product CONTRACTS CITIES)"
  shows "rosterCount masterData (keyOf p) = rosterMatch masterData (fst p) (snd p)"
proof -
  from assms have no: "CHR ''_'' \<notin> set (fst p)" "CHR ''_'' \<notin> set (snd p)"
    by (auto dest: CONTRACTS_no_underscore CITIES_no_underscore)
  have "(emp_contract emp @ ''_'' @ emp_city emp = keyOf p) =
        (emp_contract emp = fst p \<and> emp_city emp = snd p)" for emp
    using underscore_unique [of "emp_contract emp" "emp_city emp" "fst p" "snd p"] no
    by (auto simp: keyOf_def)
  then have "filter (\<lambda>emp. emp_contract emp @ ''_'' @ emp_city emp = keyOf p) masterData =
             filter (\<lambda>emp. emp_contract emp = fst p \<and> emp_city emp = snd p) masterData"
    by (intro filter_cong refl)
  then show ?thesis by (simp only: rosterCount_def rosterMatch_def)
qed

lemma totals_eq:
  "countTotals masterData initContractMap =
   map (\<lambda>p. (keyOf p, (emptyEntry p) \<lparr> ce_total := rosterCount masterData (keyOf p) \<rparr>))
     (List.product CONTRACTS CITIES)"
proof -
  have "distinct (map fst initContractMap)"
    by (simp add: initContractMap_eq comp_def distinct_keys)
  from countTotals_eq [OF this] show ?thesis
    by (simp add: initContractMap_eq emptyEntry_def comp_def)
qed

lemma totals_no_undefined:
  "map_of (countTotals masterData initContractMap) (''undefined'' @ ''_'' @ x) = None"
proof -
  have "''undefined'' @ ''_'' @ x \<noteq> keyOf p" if "p \<in> set (List.product CONTRACTS CITIES)" for p
  proof
    assume "''undefined'' @ ''_'' @ x = keyOf p"
    then have "''undefined'' @ CHR ''_'' # x = fst p @ CHR ''_'' # snd p"
      by (simp add: keyOf_def)
    moreover have "CHR ''_'' \<notin> set (fst p)"
      using that by (auto dest: CONTRACTS_no_underscore)
    moreover have "CHR ''_'' \<notin> set ''undefined''" by simp
    ultimately have "''undefined'' = fst p" using underscore_split by blast
    with that undefined_not_contract show False by auto
  qed
  then have "''undefined'' @ ''_'' @ x \<notin> fst ` set (countTotals masterData initContractMap)"
    by (force simp: totals_eq)
  then show ?thesis by (simp add: map_of_eq_None_iff)
qed

lemma countAssignments_id:
  "\<forall>x. map_of m (''undefined'' @ ''_'' @ x) = None \<Longrightarrow> countAssignments k rows m = m"
  by (induction rows) (simp_all add: countAssignments_def)

section \<open>The date filter\<close>

lemma formatYMD_error: "formatYMD P d = Inl e \<Longrightarrow> e = PlatformException"
  by (cases d) (auto split: option.splits)

lemma formatYMD_Date: "formatYMD P (Date t) = Inr (dayOf t)"
  by (simp add: dayOf_def)

lemma rowDay_cases: "rowDay P row = Inl PlatformException \<or> (\<exists>k. rowDay P row = Inr k)"
  by (cases "rowDay P row") (auto simp: rowDay_def dest: formatYMD_error)

lemma sameDay_True: "sameDay P k row = Inr True \<longleftrightarrow> rowDay P row = Inr k"
  by (auto simp: sameDay_def rowDay_def split: sum.splits)

lemma sameDay_Inl: "sameDay P k row = Inl e \<longleftrightarrow> rowDay P row = Inl e"
  by (auto simp: sameDay_def rowDay_def split: sum.splits)

lemma filterE_sameDay_Inr:
  "filterE (sameDay P k) rawData = Inr ys \<Longrightarrow>
   ys = filter (\<lambda>row. rowDay P row = Inr k) rawData \<and> datesReadable P rawData"
proof
  assume r: "filterE (sameDay P k) rawData = Inr ys"
  show "ys = filter (\<lambda>row. rowDay P row = Inr k) rawData"
    using filterE_Inr [OF r] by (simp add: sameDay_True)
  show "datesReadable P rawData"
    unfolding datesReadable_def
  proof
    fix row assume "row \<in> set rawData"
    from filterE_Inr_defined [OF r this] obtain b where "sameDay P k row = Inr b" ..
    then show "rowDay P row \<noteq> Inl PlatformException"
      by (auto simp: sameDay_def rowDay_def split: sum.splits)
  qed
qed

lemma filterE_sameDay_total:
  assumes "datesReadable P rawData"
  shows "filterE (sameDay P k) rawData = Inr (filter (\<lambda>row. rowDay P row = Inr k) rawData)"
proof -
  have "\<forall>row\<in>set rawData. \<exists>b. sameDay P k row = Inr b"
  proof
    fix row assume "row \<in> set rawData"
    with assms have "rowDay P row \<noteq> Inl PlatformException"
      by (simp add: datesReadable_def)
    with rowDay_cases [of P row] obtain k' where "rowDay P row = Inr k'" by auto
    then show "\<exists>b. sameDay P k row = Inr b"
      by (simp add: sameDay_def rowDay_def)
  qed
  from filterE_total [OF this] obtain ys where ys: "filterE (sameDay P k) rawData = Inr ys" ..
  with filterE_sameDay_Inr [OF ys] show ?thesis by simp
qed

lemma filterE_sameDay_Inl:
  "filterE (sameDay P k) rawData = Inl e \<Longrightarrow> e = PlatformException \<and> \<not> datesReadable P rawData"
proof -
  assume "filterE (sameDay P k) rawData = Inl e"
  from filterE_Inl [OF this] obtain row where row: "row \<in> set rawData" "sameDay P k row = Inl e"
    by auto
  then have "rowDay P row = Inl e" by (simp add: sameDay_Inl)
  moreover from this have "e = PlatformException"
    by (auto simp: rowDay_def dest: formatYMD_error)
  ultimately show ?thesis using row(1) by (auto simp: datesReadable_def)
qed

lemma processDailyData_Inr:
  assumes "processDailyData P rawData targetDate masterData = Inr dd"
  shows "assigned dd = filter (\<lambda>row. rowDay P row = Inr (dayOf targetDate)) rawData"
    and "unassigned dd = filter (\<lambda>emp. emp_id emp \<notin> assignedIds (assigned dd)) masterData"
    and "datesReadable P rawData"
  using assms filterE_sameDay_Inr [of P "dayOf targetDate" rawData]
  by (auto simp: processDailyData_def dayOf_def [symmetric] split: sum.splits)

lemma processDailyData_total:
  assumes "datesReadable P rawData"
  shows "\<exists>dd. processDailyData P rawData targetDate masterData = Inr dd"
  by (simp add: processDailyData_def dayOf_def [symmetric] filterE_sameDay_total [OF assms])

lemma processDailyData_Inl:
  "processDailyData P rawData targetDate masterData = Inl e \<Longrightarrow>
   e = PlatformException \<and> \<not> datesReadable P rawData"
  using filterE_sameDay_Inl [of P "dayOf targetDate" rawData e]
  by (auto simp: processDailyData_def dayOf_def [symmetric] split: sum.splits)

section \<open>The master report in closed form\<close>

lemma countAssigned_eq:
  assumes "\<forall>x. map_of m (''undefined'' @ ''_'' @ x) = None"
  shows "countAssigned P dates rawData m =
         (if dates = [] \<or> datesReadable P rawData then Inr m else Inl PlatformException)"
proof (induction dates)
  case Nil
  show ?case by simp
next
  case (Cons date dates)
  show ?case
  proof (cases "datesReadable P rawData")
    case True
    with Cons show ?thesis
      by (simp add: filterE_sameDay_total countAssignments_id [OF assms])
  next
    case False
    have "\<exists>e. filterE (sameDay P (dayOf date)) rawData = Inl e"
    proof (cases "filterE (sameDay P (dayOf date)) rawData")
      case (Inr ys)
      from filterE_sameDay_Inr [OF this] False show ?thesis by simp
    qed simp
    then obtain e where e: "filterE (sameDay P (dayOf date)) rawData = Inl e" ..
    from filterE_sameDay_Inl [OF e] e False show ?thesis
      by (simp add: dayOf_def [symmetric])
  qed
qed

lemma populateCells_eq:
  "populateCells P v dates = Inr (map (\<lambda>d. dateCell P v (dayOf d)) dates)"
  by (induction dates) (simp_all add: dayOf_def)

lemma populateRows_eq:
  "populateRows P dates m =
   Inr (map (\<lambda>(k, v). \<lparr> rr_contract = ce_contract v, rr_city = ce_city v,
                        rr_total = ce_total v,
                        rr_cells = map (\<lambda>d. dateCell P v (dayOf d)) dates \<rparr>)
          (filter (\<lambda>(k, v). ce_total v > 0) m))"
  by (induction m) (auto simp: populateCells_eq)

lemma generateMasterReport_eq:
  "generateMasterReport P dates masterData rawData =
   (if dates = [] \<or> datesReadable P rawData then Inr (reportRows P dates masterData)
    else Inl PlatformException)"
proof -
  let ?m = "countTotals masterData initContractMap"
  have "\<forall>x. map_of ?m (''undefined'' @ ''_'' @ x) = None"
    using totals_no_undefined by blast
  note ca = countAssigned_eq [OF this, of P dates rawData]
  have "populateRows P dates ?m = Inr (reportRows P dates masterData)"
    unfolding populateRows_eq totals_eq reportRows_def
    by (auto simp: filter_map comp_def emptyEntry_def dateCell_def rosterCount_match
             intro!: map_cong filter_cong)
  with ca show ?thesis by (simp add: generateMasterReport_def)
qed

lemma reportRows_row:
  assumes "row \<in> set (reportRows P dates masterData)"
  shows "(rr_contract row, rr_city row) \<in> set (List.product CONTRACTS CITIES)"
    and "rr_total row = rosterMatch masterData (rr_contract row) (rr_city row)"
    and "0 < rr_total row"
    and "rr_cells row =
           map (\<lambda>d. \<lparr> sc_assigned = 0, sc_unassigned = rr_total row,
                       sc_percentage = percentText P 0 (rr_total row) @ ''%'' \<rparr>) dates"
  using assms by (auto simp: reportRows_def)

lemma reportRows_keys:
  "map (\<lambda>row. (rr_contract row, rr_city row)) (reportRows P dates masterData) =
   filter (\<lambda>(contract, c). 0 < rosterMatch masterData contract c) (List.product CONTRACTS CITIES)"
  by (simp add: reportRows_def comp_def case_prod_unfold)

lemma generateMasterReport_cases:
  obtains (failed) "generateMasterReport P dates masterData rawData = Inl PlatformException"
      "dates \<noteq> []" "\<not> datesReadable P rawData"
  | (returned) "generateMasterReport P dates masterData rawData = Inr (reportRows P dates masterData)"
      "dates = [] \<or> datesReadable P rawData"
  by (cases "dates = [] \<or> datesReadable P rawData") (simp_all add: generateMasterReport_eq)

section \<open>The date range in closed form\<close>


lemma dayMs_pos: "0 < dayMs d"
  by (cases d) simp_all





lemma getDateRange_same: "getDateRange P (Date s) (Date s) = [s]"
proof -
  have "getDateRangeLoop P s s [] = getDateRangeLoop P (s + dayMs (dayLength P s)) s [s]"
    by (subst getDateRangeLoop.simps) simp
  also have "\<dots> = [s]"
    using dayMs_pos [of "dayLength P s"] by (subst getDateRangeLoop.simps) simp
  finally show ?thesis by simp
qed








section \<open>Trimming, the status test and the time texts\<close>














section \<open>Exceptions inside the run\<close>

lemma prepareRawData_clear: "prepareRawData P (clearExistingSheets ss) = prepareRawData P ss"
  by (simp add: prepareRawData_def clearExistingSheets_def)

lemma getMasterData_clear: "getMasterData P (clearExistingSheets ss) = getMasterData P ss"
  by (simp add: getMasterData_def clearExistingSheets_def)

lemma dailyReports_error:
  "dailyReports P rawData masterData dates ss = (ss', Some e) \<Longrightarrow> e = PlatformException"
proof (induction dates arbitrary: ss)
  case Nil
  then show ?case by simp
next
  case (Cons date dates)
  show ?case
  proof (cases "processDailyData P rawData date masterData")
    case (Inl e')
    with Cons.prems processDailyData_Inl [OF Inl] show ?thesis by simp
  next
    case (Inr dd)
    with Cons.prems Cons.IH show ?thesis by simp
  qed
qed

lemma showSuccessNotification_error:
  "showSuccessNotification P dates = Inl e \<Longrightarrow> e = PlatformException"
  by (simp add: showSuccessNotification_def split: if_splits)

lemma generateMasterReport_error:
  "generateMasterReport P dates masterData rawData = Inl e \<Longrightarrow> e = PlatformException"
  by (simp add: generateMasterReport_eq split: if_splits)

lemma try_after_validation:
  assumes "\<not> jsGreater (parseDate P startDate) (parseDate P endDate)"
    and "prepareRawData P ss \<noteq> []" and "getMasterData P ss \<noteq> []"
  shows "snd (processSelectedDatesTry P ss startDate endDate) \<noteq> Inl (Error message)"
proof
  assume err: "snd (processSelectedDatesTry P ss startDate endDate) = Inl (Error message)"
  let ?ss1 = "clearExistingSheets ss"
  let ?raw = "prepareRawData P ss"
  let ?md = "getMasterData P ss"
  let ?dates = "getDateRange P (parseDate P startDate) (parseDate P endDate)"
  obtain ss2 r where dr: "dailyReports P ?raw ?md ?dates ?ss1 = (ss2, r)"
    by (cases "dailyReports P ?raw ?md ?dates ?ss1")
  show False
  proof (cases r)
    case (Some e)
    with dr dailyReports_error have "e = PlatformException" by blast
    with err assms dr Some show False
      by (simp add: processSelectedDatesTry_def Let_def prepareRawData_clear getMasterData_clear)
  next
    case None
    show False
    proof (cases "generateMasterReport P ?dates ?md ?raw")
      case (Inl e)
      from generateMasterReport_error [OF this] err assms dr None Inl show False
        by (simp add: processSelectedDatesTry_def Let_def prepareRawData_clear
                      getMasterData_clear)
    next
      case (Inr rows)
      show False
      proof (cases "showSuccessNotification P ?dates")
        case (Inl e)
        from showSuccessNotification_error [OF this] err assms dr None Inr Inl show False
          by (simp add: processSelectedDatesTry_def Let_def prepareRawData_clear
                        getMasterData_clear)
      next
        case (Inr shown)
        with err assms dr None \<open>generateMasterReport P ?dates ?md ?raw = Inr rows\<close>
        show False
          by (simp add: processSelectedDatesTry_def Let_def prepareRawData_clear
                        getMasterData_clear)
      qed
    qed
  qed
qed

lemma processSelectedDates_returns:
  "\<exists>shown. snd (processSelectedDates P ss startDate endDate) = Inr shown"
  by (cases "processSelectedDatesTry P ss startDate endDate")
     (auto simp: processSelectedDates_def split: sum.splits)

section \<open>Evaluation on the sample inputs\<close>

lemma samplePercent_zero: "0 < t \<Longrightarrow> percentText P0 0 t = ''0.00''"
  by (simp add: P0_def samplePercent_def natToString.simps pad2_def digitChar_def)

lemma sample_readable:
  "datesReadable P0 [shiftE1]" "datesReadable P0 [shiftE1, shiftE1b]"
  "datesReadable P0 [shiftE1, shiftX9]"
  by (simp_all add: datesReadable_def rowDay_def shiftE1_def shiftE1b_def shiftX9_def)

lemma sample_rows_one:
  "reportRows P0 dates [empE1] =
     [\<lparr> rr_contract = ''MTA'', rr_city = ''Suez'', rr_total = 1,
        rr_cells = map (\<lambda>d. \<lparr> sc_assigned = 0, sc_unassigned = 1,
                               sc_percentage = ''0.00%'' \<rparr>) dates \<rparr>]"
  by (simp add: reportRows_def rosterMatch_def CONTRACTS_def CITIES_def empE1_def
                samplePercent_zero)

lemma sample_rows_two:
  "reportRows P0 dates [empE1, empE2] =
     [\<lparr> rr_contract = ''MTA'', rr_city = ''Suez'', rr_total = 2,
        rr_cells = map (\<lambda>d. \<lparr> sc_assigned = 0, sc_unassigned = 2,
                               sc_percentage = ''0.00%'' \<rparr>) dates \<rparr>]"
  by (simp add: reportRows_def rosterMatch_def CONTRACTS_def CITIES_def empE1_def empE2_def
                samplePercent_zero)


lemma sample_ingest_one: "prepareRawData P0 ssNoRoster = [shiftE1]"
  by (simp add: prepareRawData_def ssNoRoster_def CITIES_def isValidShift_def excludedStatus_def
                toUpper_def sublist_code trim_def isSpace_def formatTime_def P0_def
                TIME_ZONE_def pad2_def digitChar_def shiftE1_def)

lemma sample_ingest_full: "prepareRawData P0 ssSample = [shiftE1]"
  by (simp add: prepareRawData_def ssSample_def CITIES_def isValidShift_def excludedStatus_def
                toUpper_def sublist_code trim_def isSpace_def formatTime_def P0_def
                TIME_ZONE_def pad2_def digitChar_def shiftE1_def)

lemma sample_roster_full: "getMasterData P0 ssSample = [empE1]"
  by (simp add: getMasterData_def ssSample_def trim_def isSpace_def empE1_def)

lemma sample_run_aux:
  "processSelectedDates P0 ssSample ''2024-01-05'' ''2024-01-05'' =
     (ssSample \<lparr> dailySheets :=
                   [(day0, [(''E1'', ''09:00'', ''17:00'', ''Suez'', ''Assigned'')], [])],
                 masterReport :=
                   Some [\<lparr> rr_contract = ''MTA'', rr_city = ''Suez'', rr_total = 1,
                           rr_cells = [\<lparr> sc_assigned = 0, sc_unassigned = 1,
                                          sc_percentage = ''0.00%'' \<rparr>] \<rparr>] \<rparr>,
      Inr (ReportGenerated 1 (Day 19727) (Day 19727)))"
proof -
  have p: "parseDate P0 ''2024-01-05'' = Date day0" by (simp add: P0_def day0_def)
  have d: "getDateRange P0 (Date day0) (Date day0) = [day0]"
    by (rule getDateRange_same)
  have daily: "processDailyData P0 [shiftE1] day0 [empE1] =
                 Inr \<lparr> assigned = [shiftE1], unassigned = [] \<rparr>"
    by (simp add: processDailyData_def sameDay_def assignedIds_def shiftE1_def empE1_def day0_def)
  have rep: "generateMasterReport P0 [day0] [empE1] [shiftE1] =
     Inr [\<lparr> rr_contract = ''MTA'', rr_city = ''Suez'', rr_total = 1,
            rr_cells = [\<lparr> sc_assigned = 0, sc_unassigned = 1, sc_percentage = ''0.00%'' \<rparr>] \<rparr>]"
    by (simp add: generateMasterReport_eq sample_readable sample_rows_one)
  have n: "showSuccessNotification P0 [day0] = Inr (ReportGenerated 1 (Day 19727) (Day 19727))"
    by (simp add: showSuccessNotification_def day0_def TIME_ZONE_def msPerDay_def)
  have c: "clearExistingSheets ssSample = ssSample"
    by (simp add: clearExistingSheets_def ssSample_def)
  have "processSelectedDatesTry P0 ssSample ''2024-01-05'' ''2024-01-05'' =
     (ssSample \<lparr> dailySheets :=
                   [(day0, [(''E1'', ''09:00'', ''17:00'', ''Suez'', ''Assigned'')], [])],
                 masterReport :=
                   Some [\<lparr> rr_contract = ''MTA'', rr_city = ''Suez'', rr_total = 1,
                           rr_cells = [\<lparr> sc_assigned = 0, sc_unassigned = 1,
                                          sc_percentage = ''0.00%'' \<rparr>] \<rparr>] \<rparr>,
      Inr (ReportGenerated 1 (Day 19727) (Day 19727)))"
    unfolding processSelectedDatesTry_def Let_def p c sample_ingest_full sample_roster_full d
    by (simp add: daily rep n createDailySheets_def)
       (simp add: shiftE1_def ssSample_def)
  then show ?thesis by (simp add: processSelectedDates_def)
qed

section \<open>The cross-tab key of a shift record\<close>

text \<open>
  C1. The claim: the aggregator resolves the (contract, city) key of every assigned shift
  record through the roster entry of its employeeId and increments that key's assigned
  count for the date. The program reads \<^verbatim>\<open>row.contract\<close> of the shift record instead,
  which \<^verbatim>\<open>prepareRawData\<close> never sets, so no key is found and no count is incremented.
  On the sample spreadsheet (E1 of MTA in Suez on the roster, one shift of E1 in the Suez
  sheet on 2024-01-05) the run over that date writes E1 to the day's sheet of assigned
  shifts and leaves the sheet of unassigned employees empty, and the report row of
  (MTA, Suez) has 0 assigned and 1 unassigned for the date.
\<close>

theorem assigned_count_ignores_roster:
  "prepareRawData P0 ssSample = [shiftE1] \<and> getMasterData P0 ssSample = [empE1] \<and>
   processDailyData P0 [shiftE1] day0 [empE1] = Inr \<lparr> assigned = [shiftE1], unassigned = [] \<rparr> \<and>
   generateMasterReport P0 [day0] [empE1] [shiftE1] =
     Inr [\<lparr> rr_contract = ''MTA'', rr_city = ''Suez'', rr_total = 1,
            rr_cells = [\<lparr> sc_assigned = 0, sc_unassigned = 1, sc_percentage = ''0.00%'' \<rparr>] \<rparr>] \<and>
   processSelectedDates P0 ssSample ''2024-01-05'' ''2024-01-05'' =
     (ssSample \<lparr> dailySheets :=
                   [(day0, [(''E1'', ''09:00'', ''17:00'', ''Suez'', ''Assigned'')], [])],
                 masterReport :=
                   Some [\<lparr> rr_contract = ''MTA'', rr_city = ''Suez'', rr_total = 1,
                           rr_cells = [\<lparr> sc_assigned = 0, sc_unassigned = 1,
                                          sc_percentage = ''0.00%'' \<rparr>] \<rparr>] \<rparr>,
      Inr (ReportGenerated 1 (Day 19727) (Day 19727)))"
proof (intro conjI)
  show "prepareRawData P0 ssSample = [shiftE1]" by (rule sample_ingest_full)
  show "getMasterData P0 ssSample = [empE1]" by (rule sample_roster_full)
  show "processDailyData P0 [shiftE1] day0 [empE1] =
          Inr \<lparr> assigned = [shiftE1], unassigned = [] \<rparr>"
    by (simp add: processDailyData_def sameDay_def assignedIds_def shiftE1_def empE1_def day0_def)
  show "generateMasterReport P0 [day0] [empE1] [shiftE1] =
     Inr [\<lparr> rr_contract = ''MTA'', rr_city = ''Suez'', rr_total = 1,
            rr_cells = [\<lparr> sc_assigned = 0, sc_unassigned = 1, sc_percentage = ''0.00%'' \<rparr>] \<rparr>]"
    by (simp add: generateMasterReport_eq sample_readable sample_rows_one)
  show "processSelectedDates P0 ssSample ''2024-01-05'' ''2024-01-05'' =
     (ssSample \<lparr> dailySheets :=
                   [(day0, [(''E1'', ''09:00'', ''17:00'', ''Suez'', ''Assigned'')], [])],
                 masterReport :=
                   Some [\<lparr> rr_contract = ''MTA'', rr_city = ''Suez'', rr_total = 1,
                           rr_cells = [\<lparr> sc_assigned = 0, sc_unassigned = 1,
                                          sc_percentage = ''0.00%'' \<rparr>] \<rparr>] \<rparr>,
      Inr (ReportGenerated 1 (Day 19727) (Day 19727)))"
    by (rule sample_run_aux)
qed

section \<open>The daily partition of the roster\<close>

text \<open>
  C2. For every target date and every roster entry \<open>r\<close>, after \<^verbatim>\<open>processDailyData\<close>
  the id of \<open>r\<close> is in the assigned-id set or among the ids of the unassigned entries,
  and never in both. The call returns exactly when every row's date can be formatted.
\<close>

theorem processDailyData_partition:
  assumes "r \<in> set masterData"
  shows "case processDailyData P rawData targetDate masterData of
           Inl e \<Rightarrow> \<not> datesReadable P rawData
         | Inr dd \<Rightarrow>
             datesReadable P rawData \<and>
             (emp_id r \<in> assignedIds (assigned dd)) \<noteq> (emp_id r \<in> emp_id ` set (unassigned dd))"
proof (cases "processDailyData P rawData targetDate masterData")
  case (Inl e)
  from processDailyData_Inl [OF this] Inl show ?thesis by simp
next
  case (Inr dd)
  note dd = processDailyData_Inr [OF Inr]
  have "(emp_id r \<in> assignedIds (assigned dd)) \<noteq> (emp_id r \<in> emp_id ` set (unassigned dd))"
  proof (cases "emp_id r \<in> assignedIds (assigned dd)")
    case True
    then have "emp_id r \<notin> emp_id ` set (unassigned dd)"
      by (auto simp: dd(2))
    with True show ?thesis by simp
  next
    case False
    with assms have "r \<in> set (unassigned dd)"
      by (simp add: dd(2))
    with False show ?thesis by auto
  qed
  with dd(3) Inr show ?thesis by simp
qed

theorem processDailyData_partition_witness:
  "processDailyData P0 [shiftE1, shiftX9] day0 [empE1, empE2] =
     Inr \<lparr> assigned = [shiftE1, shiftX9], unassigned = [empE2] \<rparr> \<and>
   empE1 \<in> set [empE1, empE2] \<and> empE2 \<in> set [empE1, empE2] \<and>
   (emp_id empE1 \<in> assignedIds [shiftE1, shiftX9]) \<noteq> (emp_id empE1 \<in> emp_id ` set [empE2]) \<and>
   (emp_id empE2 \<in> assignedIds [shiftE1, shiftX9]) \<noteq> (emp_id empE2 \<in> emp_id ` set [empE2])"
proof -
  have run: "processDailyData P0 [shiftE1, shiftX9] day0 [empE1, empE2] =
             Inr \<lparr> assigned = [shiftE1, shiftX9], unassigned = [empE2] \<rparr>"
    by (simp add: processDailyData_def sameDay_def assignedIds_def shiftE1_def shiftX9_def
                  empE1_def empE2_def day0_def)
  have m1: "empE1 \<in> set [empE1, empE2]" and m2: "empE2 \<in> set [empE1, empE2]"
    by simp_all
  from processDailyData_partition [OF m1, where P = P0 and rawData = "[shiftE1, shiftX9]"
      and targetDate = day0]
  have p1: "(emp_id empE1 \<in> assignedIds [shiftE1, shiftX9]) \<noteq>
            (emp_id empE1 \<in> emp_id ` set [empE2])"
    by (simp add: run)
  from processDailyData_partition [OF m2, where P = P0 and rawData = "[shiftE1, shiftX9]"
      and targetDate = day0]
  have p2: "(emp_id empE2 \<in> assignedIds [shiftE1, shiftX9]) \<noteq>
            (emp_id empE2 \<in> emp_id ` set [empE2])"
    by (simp add: run)
  from run m1 m2 p1 p2 show ?thesis by (intro conjI)
qed

text \<open>
  C10. The assigned list is exactly the input shift records whose planned start date
  formats to the target date's text, in input order; it does not depend on the roster, so
  a record of an employee who is not on the roster is in the list and its employeeId in
  the assigned-id set; the unassigned list holds roster entries only.
\<close>

theorem processDailyData_assigned:
  "case processDailyData P rawData targetDate masterData of
     Inl e \<Rightarrow> \<not> datesReadable P rawData
   | Inr dd \<Rightarrow>
       datesReadable P rawData \<and>
       assigned dd = filter (\<lambda>row. rowDay P row = Inr (dayOf targetDate)) rawData \<and>
       (\<forall>row\<in>set rawData. rowDay P row = Inr (dayOf targetDate) \<longrightarrow>
          row \<in> set (assigned dd) \<and> employeeId row \<in> assignedIds (assigned dd)) \<and>
       map_sum id assigned (processDailyData P rawData targetDate []) = Inr (assigned dd) \<and>
       set (unassigned dd) \<subseteq> set masterData"
proof (cases "processDailyData P rawData targetDate masterData")
  case (Inl e)
  from processDailyData_Inl [OF this] Inl show ?thesis by simp
next
  case (Inr dd)
  note dd = processDailyData_Inr [OF Inr]
  from processDailyData_total [OF dd(3)] obtain dd'
    where dd': "processDailyData P rawData targetDate [] = Inr dd'" ..
  from processDailyData_Inr(1) [OF dd'] dd(1) have "assigned dd' = assigned dd" by simp
  with dd' have "map_sum id assigned (processDailyData P rawData targetDate []) = Inr (assigned dd)"
    by simp
  moreover have "set (unassigned dd) \<subseteq> set masterData"
    by (auto simp: dd(2))
  moreover have "\<forall>row\<in>set rawData. rowDay P row = Inr (dayOf targetDate) \<longrightarrow>
          row \<in> set (assigned dd) \<and> employeeId row \<in> assignedIds (assigned dd)"
    by (auto simp: dd(1) assignedIds_def)
  ultimately show ?thesis using dd(1,3) Inr by simp
qed

theorem processDailyData_assigned_witness:
  "processDailyData P0 [shiftX9, shiftE1] day0 [empE1, empE2] =
     Inr \<lparr> assigned = [shiftX9, shiftE1], unassigned = [empE2] \<rparr> \<and>
   rowDay P0 shiftX9 = Inr (dayOf day0) \<and>
   employeeId shiftX9 \<notin> emp_id ` set [empE1, empE2] \<and>
   employeeId shiftX9 \<in> assignedIds [shiftX9, shiftE1] \<and>
   processDailyData P0 [shiftX9, shiftE1] (day0 + msPerDay) [empE1, empE2] =
     Inr \<lparr> assigned = [], unassigned = [empE1, empE2] \<rparr>"
proof -
  have run: "processDailyData P0 [shiftX9, shiftE1] day0 [empE1, empE2] =
             Inr \<lparr> assigned = [shiftX9, shiftE1], unassigned = [empE2] \<rparr>"
    by (simp add: processDailyData_def sameDay_def assignedIds_def shiftE1_def shiftX9_def
                  empE1_def empE2_def day0_def)
  have run2: "processDailyData P0 [shiftX9, shiftE1] (day0 + msPerDay) [empE1, empE2] =
             Inr \<lparr> assigned = [], unassigned = [empE1, empE2] \<rparr>"
    by (simp add: processDailyData_def sameDay_def assignedIds_def shiftE1_def shiftX9_def
                  empE1_def empE2_def day0_def msPerDay_def TIME_ZONE_def)
  have key: "rowDay P0 shiftX9 = Inr (dayOf day0)"
    by (simp add: rowDay_def dayOf_def shiftX9_def day0_def)
  from processDailyData_assigned [where P = P0 and rawData = "[shiftX9, shiftE1]"
      and targetDate = day0 and masterData = "[empE1, empE2]"]
  have "\<forall>row\<in>set [shiftX9, shiftE1]. rowDay P0 row = Inr (dayOf day0) \<longrightarrow>
          row \<in> set [shiftX9, shiftE1] \<and> employeeId row \<in> assignedIds [shiftX9, shiftE1]"
    unfolding run by (simp only: sum.case daily_data.simps) blast
  with key have "employeeId shiftX9 \<in> assignedIds [shiftX9, shiftE1]"
    by (simp only: list.set) blast
  moreover have "employeeId shiftX9 \<notin> emp_id ` set [empE1, empE2]"
    by (simp add: shiftX9_def empE1_def empE2_def)
  ultimately show ?thesis using run run2 key by (intro conjI)
qed

section \<open>Two shifts of one employee on one date\<close>

text \<open>
  Two shift rows of one employee and the classification: if two shift rows share an
  employeeId on the target date, both are in the assigned list, the id is a member of the assigned-id
  set, no roster entry with that id is unassigned, and every roster entry is counted
  once, as unassigned or as assigned, whatever the number of its shift rows.
\<close>

lemma filter_two_positions:
  assumes "i < j" "j < length xs" "Q (xs ! i)" "Q (xs ! j)"
  shows "2 \<le> length (filter Q xs)"
proof -
  have "xs ! i \<in> set (take j xs)"
    using assms(1,2) by (auto simp: in_set_conv_nth intro!: exI [of _ i])
  with assms(3) have "filter Q (take j xs) \<noteq> []"
    by (auto simp: filter_empty_conv)
  then have a: "1 \<le> length (filter Q (take j xs))"
    by (cases "filter Q (take j xs)") auto
  have "xs ! j \<in> set (drop j xs)"
    using assms(2) by (auto simp: in_set_conv_nth intro!: exI [of _ 0])
  with assms(4) have "filter Q (drop j xs) \<noteq> []"
    by (auto simp: filter_empty_conv)
  then have b: "1 \<le> length (filter Q (drop j xs))"
    by (cases "filter Q (drop j xs)") auto
  have "filter Q xs = filter Q (take j xs) @ filter Q (drop j xs)"
    by (metis append_take_drop_id filter_append)
  then have "length (filter Q xs) =
             length (filter Q (take j xs)) + length (filter Q (drop j xs))"
    by simp
  with a b show ?thesis by linarith
qed

theorem duplicate_shifts_classified_once:
  assumes run: "processDailyData P rawData targetDate masterData = Inr dd"
    and pos: "i < j" "j < length rawData"
    and same: "employeeId (rawData ! i) = employeeId (rawData ! j)"
    and day: "rowDay P (rawData ! i) = Inr (dayOf targetDate)"
             "rowDay P (rawData ! j) = Inr (dayOf targetDate)"
  shows "2 \<le> length (filter (\<lambda>row. employeeId row = employeeId (rawData ! i)) (assigned dd)) \<and>
         employeeId (rawData ! i) \<in> assignedIds (assigned dd) \<and>
         (\<forall>emp\<in>set (unassigned dd). emp_id emp \<noteq> employeeId (rawData ! i)) \<and>
         length (unassigned dd) +
           length (filter (\<lambda>emp. emp_id emp \<in> assignedIds (assigned dd)) masterData) =
         length masterData"
proof -
  note dd = processDailyData_Inr [OF run]
  let ?e = "employeeId (rawData ! i)"
  let ?Q = "\<lambda>row. rowDay P row = Inr (dayOf targetDate) \<and> employeeId row = ?e"
  have "filter (\<lambda>row. employeeId row = ?e) (assigned dd) = filter ?Q rawData"
    by (simp add: dd(1))
  moreover have "2 \<le> length (filter ?Q rawData)"
    using pos day same by (intro filter_two_positions [of i j]) simp_all
  ultimately have two: "2 \<le> length (filter (\<lambda>row. employeeId row = ?e) (assigned dd))"
    by simp
  have "rawData ! i \<in> set rawData" using pos by simp
  with day(1) have "rawData ! i \<in> set (assigned dd)" by (simp add: dd(1))
  then have mem: "?e \<in> assignedIds (assigned dd)" by (auto simp: assignedIds_def)
  then have out: "\<forall>emp\<in>set (unassigned dd). emp_id emp \<noteq> ?e"
    by (auto simp: dd(2))
  have "length (unassigned dd) +
          length (filter (\<lambda>emp. emp_id emp \<in> assignedIds (assigned dd)) masterData) =
        length masterData"
    using sum_length_filter_compl [of "\<lambda>emp. emp_id emp \<in> assignedIds (assigned dd)" masterData]
    by (simp add: dd(2))
  with two mem out show ?thesis by simp
qed

theorem duplicate_shifts_classified_once_witness:
  "processDailyData P0 [shiftE1, shiftE1b] day0 [empE1, empE2] =
     Inr \<lparr> assigned = [shiftE1, shiftE1b], unassigned = [empE2] \<rparr> \<and>
   employeeId shiftE1 = employeeId shiftE1b \<and>
   2 \<le> length (filter (\<lambda>row. employeeId row = employeeId shiftE1) [shiftE1, shiftE1b]) \<and>
   employeeId shiftE1 \<in> assignedIds [shiftE1, shiftE1b] \<and>
   emp_id empE2 \<noteq> employeeId shiftE1 \<and>
   length [empE2] +
     length (filter (\<lambda>emp. emp_id emp \<in> assignedIds [shiftE1, shiftE1b]) [empE1, empE2]) =
   length [empE1, empE2]"
proof -
  have run: "processDailyData P0 [shiftE1, shiftE1b] day0 [empE1, empE2] =
          Inr \<lparr> assigned = [shiftE1, shiftE1b], unassigned = [empE2] \<rparr>"
    by (simp add: processDailyData_def sameDay_def assignedIds_def shiftE1_def shiftE1b_def
                  empE1_def empE2_def day0_def)
  have pos: "(0::nat) < 1" "1 < length [shiftE1, shiftE1b]" by simp_all
  have same: "employeeId ([shiftE1, shiftE1b] ! 0) = employeeId ([shiftE1, shiftE1b] ! 1)"
    by (simp add: shiftE1_def shiftE1b_def)
  have d0: "rowDay P0 ([shiftE1, shiftE1b] ! 0) = Inr (dayOf day0)"
    and d1: "rowDay P0 ([shiftE1, shiftE1b] ! 1) = Inr (dayOf day0)"
    by (simp_all add: rowDay_def dayOf_def shiftE1_def shiftE1b_def day0_def)
  from duplicate_shifts_classified_once [OF run pos same d0 d1] same run
  show ?thesis by simp
qed

text \<open>
  C4. The claim: both records are in the date's assigned list, and the employee is
  counted once as assigned for the classification and for the percentage in the summary
  cell. The summary cell does not follow: on the sample input the two shifts of E1 are
  both in the assigned list of 2024-01-05 and E1 is not unassigned, and the cell of
  (MTA, Suez) for that date counts 0 assigned and 1 unassigned.
\<close>

theorem duplicate_shifts_summary_cell:
  "processDailyData P0 [shiftE1, shiftE1b] day0 [empE1] =
     Inr \<lparr> assigned = [shiftE1, shiftE1b], unassigned = [] \<rparr> \<and>
   generateMasterReport P0 [day0] [empE1] [shiftE1, shiftE1b] =
     Inr [\<lparr> rr_contract = ''MTA'', rr_city = ''Suez'', rr_total = 1,
            rr_cells = [\<lparr> sc_assigned = 0, sc_unassigned = 1, sc_percentage = ''0.00%'' \<rparr>] \<rparr>]"
proof
  show "processDailyData P0 [shiftE1, shiftE1b] day0 [empE1] =
          Inr \<lparr> assigned = [shiftE1, shiftE1b], unassigned = [] \<rparr>"
    by (simp add: processDailyData_def sameDay_def assignedIds_def shiftE1_def shiftE1b_def
                  empE1_def day0_def)
  show "generateMasterReport P0 [day0] [empE1] [shiftE1, shiftE1b] =
     Inr [\<lparr> rr_contract = ''MTA'', rr_city = ''Suez'', rr_total = 1,
            rr_cells = [\<lparr> sc_assigned = 0, sc_unassigned = 1, sc_percentage = ''0.00%'' \<rparr>] \<rparr>]"
    by (simp add: generateMasterReport_eq sample_readable sample_rows_one)
qed

section \<open>Totals of the report rows\<close>

text \<open>
  C3. For every row of the report and every date cell of the row, assigned plus
  unassigned is the row's total, and the total is the number of roster entries with the
  row's contract and city; a row has one total for all its date cells, one cell per date.
\<close>

theorem report_totals:
  "case generateMasterReport P dates masterData rawData of
     Inl e \<Rightarrow> dates \<noteq> [] \<and> \<not> datesReadable P rawData
   | Inr rows \<Rightarrow>
       (dates = [] \<or> datesReadable P rawData) \<and>
       (\<forall>row\<in>set rows.
          rr_total row = rosterMatch masterData (rr_contract row) (rr_city row) \<and>
          length (rr_cells row) = length dates \<and>
          (\<forall>c\<in>set (rr_cells row). sc_assigned c + sc_unassigned c = rr_total row))"
proof (rule generateMasterReport_cases [of P dates masterData rawData], goal_cases)
  case 1
  then show ?case by simp
next
  case returned: 2
  have "rr_total row = rosterMatch masterData (rr_contract row) (rr_city row) \<and>
        length (rr_cells row) = length dates \<and>
        (\<forall>c\<in>set (rr_cells row). sc_assigned c + sc_unassigned c = rr_total row)"
    if "row \<in> set (reportRows P dates masterData)" for row
    using reportRows_row(2) [OF that] by (auto simp: reportRows_row(4) [OF that])
  with returned show ?case by simp
qed

theorem report_totals_witness:
  "generateMasterReport P0 [day0] [empE1, empE2] [shiftE1] =
     Inr [\<lparr> rr_contract = ''MTA'', rr_city = ''Suez'', rr_total = 2,
            rr_cells = [\<lparr> sc_assigned = 0, sc_unassigned = 2, sc_percentage = ''0.00%'' \<rparr>] \<rparr>] \<and>
   rosterMatch [empE1, empE2] ''MTA'' ''Suez'' = 2 \<and>
   length [\<lparr> sc_assigned = 0, sc_unassigned = 2, sc_percentage = ''0.00%'' \<rparr>] = length [day0] \<and>
   (0::int) + 2 = 2"
proof -
  have run: "generateMasterReport P0 [day0] [empE1, empE2] [shiftE1] =
     Inr [\<lparr> rr_contract = ''MTA'', rr_city = ''Suez'', rr_total = 2,
            rr_cells = [\<lparr> sc_assigned = 0, sc_unassigned = 2, sc_percentage = ''0.00%'' \<rparr>] \<rparr>]"
    by (simp add: generateMasterReport_eq sample_readable sample_rows_two)
  from report_totals [where P = P0 and dates = "[day0]" and masterData = "[empE1, empE2]"
      and rawData = "[shiftE1]"]
  have "rosterMatch [empE1, empE2] ''MTA'' ''Suez'' = 2"
    by (simp add: run)
  with run show ?thesis by simp
qed

text \<open>
  C8. A (contract, city) pair with no roster entry has no row in the report, whatever
  the shift records are: every row has a positive total.
\<close>

theorem report_omits_empty_pairs:
  "case generateMasterReport P dates masterData rawData of
     Inl e \<Rightarrow> dates \<noteq> [] \<and> \<not> datesReadable P rawData
   | Inr rows \<Rightarrow>
       (dates = [] \<or> datesReadable P rawData) \<and>
       (\<forall>row\<in>set rows. 0 < rr_total row) \<and>
       (\<forall>contract c. rosterMatch masterData contract c = 0 \<longrightarrow>
          (\<forall>row\<in>set rows. \<not> (rr_contract row = contract \<and> rr_city row = c)))"
proof (rule generateMasterReport_cases [of P dates masterData rawData], goal_cases)
  case 1
  then show ?case by simp
next
  case returned: 2
  have pos: "0 < rr_total row" if "row \<in> set (reportRows P dates masterData)" for row
    using that by (rule reportRows_row(3))
  have "\<not> (rr_contract row = contract \<and> rr_city row = c)"
    if "row \<in> set (reportRows P dates masterData)" "rosterMatch masterData contract c = 0"
    for row contract c
    using reportRows_row(2,3) [OF that(1)] that(2) by auto
  with pos returned show ?case by simp
qed

theorem report_omits_empty_pairs_witness:
  "generateMasterReport P0 [day0] [empE1, empE2] [shiftE1, shiftX9] =
     Inr [\<lparr> rr_contract = ''MTA'', rr_city = ''Suez'', rr_total = 2,
            rr_cells = [\<lparr> sc_assigned = 0, sc_unassigned = 2, sc_percentage = ''0.00%'' \<rparr>] \<rparr>] \<and>
   city shiftX9 = ''Minya'' \<and>
   rosterMatch [empE1, empE2] ''MTA'' ''Minya'' = 0 \<and>
   \<not> (''MTA'' = ''MTA'' \<and> ''Suez'' = ''Minya'')"
proof -
  have run: "generateMasterReport P0 [day0] [empE1, empE2] [shiftE1, shiftX9] =
     Inr [\<lparr> rr_contract = ''MTA'', rr_city = ''Suez'', rr_total = 2,
            rr_cells = [\<lparr> sc_assigned = 0, sc_unassigned = 2, sc_percentage = ''0.00%'' \<rparr>] \<rparr>]"
    by (simp add: generateMasterReport_eq sample_readable sample_rows_two)
  have zero: "rosterMatch [empE1, empE2] ''MTA'' ''Minya'' = 0"
    by (simp add: rosterMatch_def empE1_def empE2_def)
  from report_omits_empty_pairs [where P = P0 and dates = "[day0]"
      and masterData = "[empE1, empE2]" and rawData = "[shiftE1, shiftX9]"]
  have "\<forall>contract c. rosterMatch [empE1, empE2] contract c = 0 \<longrightarrow>
          \<not> (''MTA'' = contract \<and> ''Suez'' = c)"
    by (simp add: run)
  with zero have "\<not> (''MTA'' = ''MTA'' \<and> ''Suez'' = ''Minya'')" by blast
  moreover have "city shiftX9 = ''Minya''" by (simp add: shiftX9_def)
  ultimately show ?thesis using run zero by (intro conjI)
qed

text \<open>
  C9. The report is a function of its inputs: its rows are those pairs of the
  enumeration CONTRACTS x CITIES, in the order of the enumeration, that have a roster
  entry, and two lists of target dates that format to the same texts give the same
  result.
\<close>

theorem report_order:
  "(case generateMasterReport P dates masterData rawData of
      Inl e \<Rightarrow> dates \<noteq> [] \<and> \<not> datesReadable P rawData
    | Inr rows \<Rightarrow>
        (dates = [] \<or> datesReadable P rawData) \<and>
        map (\<lambda>row. (rr_contract row, rr_city row)) rows =
          filter (\<lambda>(contract, c). 0 < rosterMatch masterData contract c)
            (List.product CONTRACTS CITIES)) \<and>
   (map dayOf dates' = map dayOf dates \<longrightarrow>
      generateMasterReport P dates' masterData rawData =
      generateMasterReport P dates masterData rawData)"
proof
  show "case generateMasterReport P dates masterData rawData of
      Inl e \<Rightarrow> dates \<noteq> [] \<and> \<not> datesReadable P rawData
    | Inr rows \<Rightarrow>
        (dates = [] \<or> datesReadable P rawData) \<and>
        map (\<lambda>row. (rr_contract row, rr_city row)) rows =
          filter (\<lambda>(contract, c). 0 < rosterMatch masterData contract c)
            (List.product CONTRACTS CITIES)"
    by (rule generateMasterReport_cases [of P dates masterData rawData])
       (simp_all add: reportRows_keys)
  show "map dayOf dates' = map dayOf dates \<longrightarrow>
      generateMasterReport P dates' masterData rawData =
      generateMasterReport P dates masterData rawData"
  proof
    assume eq: "map dayOf dates' = map dayOf dates"
    then have len: "length dates' = length dates"
      by (rule map_eq_imp_length_eq)
    then have "map (\<lambda>d. x) dates' = map (\<lambda>d. x) dates" for x :: summary_cell
      by (simp add: map_replicate_const)
    then have "reportRows P dates' masterData = reportRows P dates masterData"
      by (simp add: reportRows_def)
    moreover from len have "dates' = [] \<longleftrightarrow> dates = []" by auto
    ultimately show "generateMasterReport P dates' masterData rawData =
      generateMasterReport P dates masterData rawData"
      by (simp add: generateMasterReport_eq)
  qed
qed

theorem report_order_witness:
  "map dayOf [day0 + 3600000] = map dayOf [day0] \<and>
   generateMasterReport P0 [day0 + 3600000] [empE2, empE1] [shiftE1] =
     generateMasterReport P0 [day0] [empE2, empE1] [shiftE1] \<and>
   (\<exists>rows. generateMasterReport P0 [day0] [empE2, empE1] [shiftE1] = Inr rows \<and>
      map (\<lambda>row. (rr_contract row, rr_city row)) rows = [(''MTA'', ''Suez'')])"
proof -
  have days: "map dayOf [day0 + 3600000] = map dayOf [day0]"
    by (simp add: dayOf_def day0_def TIME_ZONE_def msPerDay_def)
  have keys: "filter (\<lambda>(contract, c). 0 < rosterMatch [empE2, empE1] contract c)
            (List.product CONTRACTS CITIES) = [(''MTA'', ''Suez'')]"
    by (simp add: rosterMatch_def CONTRACTS_def CITIES_def empE1_def empE2_def)
  note order = report_order [where P = P0 and dates = "[day0]" and masterData = "[empE2, empE1]"
      and rawData = "[shiftE1]" and dates' = "[day0 + 3600000]"]
  from order days
  have same: "generateMasterReport P0 [day0 + 3600000] [empE2, empE1] [shiftE1] =
     generateMasterReport P0 [day0] [empE2, empE1] [shiftE1]"
    by blast
  from order
  have "\<exists>rows. generateMasterReport P0 [day0] [empE2, empE1] [shiftE1] = Inr rows \<and>
      map (\<lambda>row. (rr_contract row, rr_city row)) rows = [(''MTA'', ''Suez'')]"
    by (cases "generateMasterReport P0 [day0] [empE2, empE1] [shiftE1]")
       (simp_all add: sample_readable keys)
  with days same show ?thesis by (intro conjI)
qed

section \<open>The date range\<close>




section \<open>Validation failures of a run\<close>

text \<open>
  C6, as the claim states it: a validation failure is never swallowed. On the sample
  input with start after end the \<^verbatim>\<open>try\<close> block raises the error and
  \<^verbatim>\<open>processSelectedDates\<close> returns, having shown the message in an alert.
\<close>

theorem validation_swallowed_counterexample:
  "processSelectedDatesTry P0 ssEmpty ''2024-01-06'' ''2024-01-05'' =
     (ssEmpty, Inl (Error ''Start date must be before end date'')) \<and>
   processSelectedDates P0 ssEmpty ''2024-01-06'' ''2024-01-05'' =
     (ssEmpty, Inr (ErrorAlert ''Start date must be before end date''))"
  by (simp add: processSelectedDates_def processSelectedDatesTry_def P0_def)

text \<open>
  C6, amended: the \<^verbatim>\<open>try\<close> block raises an error of its own in exactly three cases,
  checked in this order: start after end, no shift record ingested from any city sheet,
  no roster entry. In each case no report is written: with start after end the
  spreadsheet is untouched, in the two other cases the generated sheets of an earlier run
  have been deleted and none is created. The error does not leave
  \<^verbatim>\<open>processSelectedDates\<close>: its \<^verbatim>\<open>catch\<close> hands it to \<^verbatim>\<open>handleError\<close>, which
  shows the message in an alert, and the call returns.
\<close>

theorem validation_failures:
  "((\<exists>message. snd (processSelectedDatesTry P ss startDate endDate) = Inl (Error message)) \<longleftrightarrow>
      (jsGreater (parseDate P startDate) (parseDate P endDate) \<or>
       prepareRawData P ss = [] \<or> getMasterData P ss = [])) \<and>
   (jsGreater (parseDate P startDate) (parseDate P endDate) \<longrightarrow>
      processSelectedDates P ss startDate endDate =
        (ss, Inr (ErrorAlert ''Start date must be before end date''))) \<and>
   (\<not> jsGreater (parseDate P startDate) (parseDate P endDate) \<and> prepareRawData P ss = [] \<longrightarrow>
      processSelectedDates P ss startDate endDate =
        (clearExistingSheets ss, Inr (ErrorAlert ''No valid shift data found in city sheets''))) \<and>
   (\<not> jsGreater (parseDate P startDate) (parseDate P endDate) \<and> prepareRawData P ss \<noteq> [] \<and>
    getMasterData P ss = [] \<longrightarrow>
      processSelectedDates P ss startDate endDate =
        (clearExistingSheets ss, Inr (ErrorAlert ''No employee data found in 'All' sheet''))) \<and>
   dailySheets (clearExistingSheets ss) = [] \<and> masterReport (clearExistingSheets ss) = None \<and>
   (\<exists>shown. snd (processSelectedDates P ss startDate endDate) = Inr shown)"
proof (intro conjI impI iffI)
  assume "\<exists>message. snd (processSelectedDatesTry P ss startDate endDate) = Inl (Error message)"
  then obtain message
    where "snd (processSelectedDatesTry P ss startDate endDate) = Inl (Error message)" ..
  with try_after_validation [of P startDate endDate ss message]
  show "jsGreater (parseDate P startDate) (parseDate P endDate) \<or>
       prepareRawData P ss = [] \<or> getMasterData P ss = []"
    by blast
next
  assume "jsGreater (parseDate P startDate) (parseDate P endDate) \<or>
       prepareRawData P ss = [] \<or> getMasterData P ss = []"
  then show "\<exists>message. snd (processSelectedDatesTry P ss startDate endDate) = Inl (Error message)"
    by (auto simp: processSelectedDatesTry_def Let_def prepareRawData_clear getMasterData_clear)
next
  assume "jsGreater (parseDate P startDate) (parseDate P endDate)"
  then show "processSelectedDates P ss startDate endDate =
        (ss, Inr (ErrorAlert ''Start date must be before end date''))"
    by (simp add: processSelectedDates_def processSelectedDatesTry_def)
next
  assume "\<not> jsGreater (parseDate P startDate) (parseDate P endDate) \<and> prepareRawData P ss = []"
  then show "processSelectedDates P ss startDate endDate =
        (clearExistingSheets ss, Inr (ErrorAlert ''No valid shift data found in city sheets''))"
    by (simp add: processSelectedDates_def processSelectedDatesTry_def prepareRawData_clear)
next
  assume "\<not> jsGreater (parseDate P startDate) (parseDate P endDate) \<and> prepareRawData P ss \<noteq> [] \<and>
    getMasterData P ss = []"
  then show "processSelectedDates P ss startDate endDate =
        (clearExistingSheets ss, Inr (ErrorAlert ''No employee data found in 'All' sheet''))"
    by (simp add: processSelectedDates_def processSelectedDatesTry_def Let_def
                  prepareRawData_clear getMasterData_clear)
next
  show "dailySheets (clearExistingSheets ss) = []" "masterReport (clearExistingSheets ss) = None"
    by (simp_all add: clearExistingSheets_def)
next
  show "\<exists>shown. snd (processSelectedDates P ss startDate endDate) = Inr shown"
    by (rule processSelectedDates_returns)
qed

theorem validation_failures_witness:
  "processSelectedDates P0 ssEmpty ''2024-01-06'' ''2024-01-05'' =
     (ssEmpty, Inr (ErrorAlert ''Start date must be before end date'')) \<and>
   processSelectedDates P0 ssEmpty ''2024-01-05'' ''2024-01-06'' =
     (clearExistingSheets ssEmpty, Inr (ErrorAlert ''No valid shift data found in city sheets'')) \<and>
   prepareRawData P0 ssNoRoster = [shiftE1] \<and>
   processSelectedDates P0 ssNoRoster ''2024-01-05'' ''2024-01-06'' =
     (clearExistingSheets ssNoRoster, Inr (ErrorAlert ''No employee data found in 'All' sheet'')) \<and>
   (\<exists>message. snd (processSelectedDatesTry P0 ssNoRoster ''2024-01-05'' ''2024-01-06'') =
      Inl (Error message))"
proof -
  have later: "jsGreater (parseDate P0 ''2024-01-06'') (parseDate P0 ''2024-01-05'')"
    and inorder: "\<not> jsGreater (parseDate P0 ''2024-01-05'') (parseDate P0 ''2024-01-06'')"
    by (simp_all add: P0_def)
  have noraw: "prepareRawData P0 ssEmpty = []"
    by (simp add: prepareRawData_def ssEmpty_def)
  have raw: "prepareRawData P0 ssNoRoster \<noteq> []"
    by (simp add: sample_ingest_one)
  have noroster: "getMasterData P0 ssNoRoster = []"
    by (simp add: getMasterData_def ssNoRoster_def)
  from validation_failures [of P0 ssEmpty "''2024-01-06''" "''2024-01-05''"] later
  have 1: "processSelectedDates P0 ssEmpty ''2024-01-06'' ''2024-01-05'' =
     (ssEmpty, Inr (ErrorAlert ''Start date must be before end date''))"
    by blast
  from validation_failures [of P0 ssEmpty "''2024-01-05''" "''2024-01-06''"] inorder noraw
  have 2: "processSelectedDates P0 ssEmpty ''2024-01-05'' ''2024-01-06'' =
     (clearExistingSheets ssEmpty, Inr (ErrorAlert ''No valid shift data found in city sheets''))"
    by blast
  from validation_failures [of P0 ssNoRoster "''2024-01-05''" "''2024-01-06''"]
    inorder raw noroster
  have 3: "processSelectedDates P0 ssNoRoster ''2024-01-05'' ''2024-01-06'' =
     (clearExistingSheets ssNoRoster, Inr (ErrorAlert ''No employee data found in 'All' sheet''))"
    and 4: "\<exists>message. snd (processSelectedDatesTry P0 ssNoRoster ''2024-01-05'' ''2024-01-06'') =
      Inl (Error message)"
    by blast+
  from 1 2 sample_ingest_one 3 4 show ?thesis by (intro conjI)
qed

section \<open>Ingestion of the raw rows\<close>




end
